theory Spec2Isabelle
  imports Main "HOL-Library.Extended_Nat"
begin

section \<open>Gap filling of gridded data: the per-pixel pipeline of \<open>Gapfiller\<close>\<close>

text \<open>
  The development embeds \<open>src/mltools/ml4xcube/gapfilling/gap_filling.py\<close>.
  A float64 cell is NaN, an infinity, or a finite value; a finite float64 is a (dyadic)
  rational, so finite values are carried as \<open>rat\<close>. Rounding of arithmetic results is not
  modelled: every theorem below depends only on tests for NaN, on equality with the gap marker
  and on the order of values, and the concrete inputs use small integers, on which float64
  arithmetic is exact.
\<close>

subsection \<open>Values, arrays and errors\<close>

datatype float64 = NaN | PInf | NInf | Fin rat

type_synonym matrix = "float64 list list"

type_synonym coord = "nat \<times> nat"

text \<open>
  The exceptions the code can raise. \<open>DrawsExhausted\<close> is not an exception of the source: it is
  the value of a run of the sampling loop of \<open>get_random_points\<close> that is still running when the
  supplied random draws are used up.
\<close>

datatype error = KeyError | TypeError | IndexError | ValueError | UnboundLocalError
  | EmptyScatter | SklearnError | DrawsExhausted

definition bind_err :: "error + 'a \<Rightarrow> ('a \<Rightarrow> error + 'b) \<Rightarrow> error + 'b" where
  "bind_err m f = (case m of Inl e \<Rightarrow> Inl e | Inr x \<Rightarrow> f x)"

text \<open>\<open>np.isnan\<close>, the comparison \<open>==\<close> of floats (NaN equals nothing) and \<open>!=\<close>.\<close>

definition isnan :: "float64 \<Rightarrow> bool" where
  "isnan x = (x = NaN)"

definition feq :: "float64 \<Rightarrow> float64 \<Rightarrow> bool" where
  "feq x y = (x \<noteq> NaN \<and> y \<noteq> NaN \<and> x = y)"

definition fne :: "float64 \<Rightarrow> float64 \<Rightarrow> bool" where
  "fne x y = (\<not> feq x y)"

text \<open>
  \<open>np.isclose(a, b)\<close> with the default \<open>rtol = 1e-05\<close>, \<open>atol = 1e-08\<close> and
  \<open>equal_nan = False\<close>: finite values are compared with the tolerance, infinities are close
  only to themselves, and NaN is close to nothing, not even to NaN.
\<close>

fun isclose :: "float64 \<Rightarrow> float64 \<Rightarrow> bool" where
  "isclose (Fin a) (Fin b) = (\<bar>a - b\<bar> \<le> 1 / 10 ^ 8 + (1 / 10 ^ 5) * \<bar>b\<bar>)"
| "isclose PInf PInf = True"
| "isclose NInf NInf = True"
| "isclose _ _ = False"

text \<open>\<open>a.size\<close>, \<open>a.shape\<close>, \<open>(cond).sum()\<close>, \<open>np.argwhere(cond)\<close> (row-major) and \<open>a[i, j]\<close>.\<close>

definition size_m :: "matrix \<Rightarrow> nat" where
  "size_m a = sum_list (map length a)"

definition shape0 :: "matrix \<Rightarrow> nat" where
  "shape0 a = length a"

definition shape1 :: "matrix \<Rightarrow> nat" where
  "shape1 a = (case a of [] \<Rightarrow> 0 | r # _ \<Rightarrow> length r)"

definition count_where :: "(float64 \<Rightarrow> bool) \<Rightarrow> matrix \<Rightarrow> nat" where
  "count_where P a = length (filter P (concat a))"

definition row_where :: "(float64 \<Rightarrow> bool) \<Rightarrow> nat \<Rightarrow> float64 list \<Rightarrow> coord list" where
  "row_where P i r = map (\<lambda>j. (i, j)) (filter (\<lambda>j. P (r ! j)) [0..<length r])"

definition argwhere :: "(float64 \<Rightarrow> bool) \<Rightarrow> matrix \<Rightarrow> coord list" where
  "argwhere P a = concat (map (\<lambda>i. row_where P i (a ! i)) [0..<length a])"

definition getitem2 :: "matrix \<Rightarrow> nat \<Rightarrow> nat \<Rightarrow> error + float64" where
  "getitem2 a i j =
     (if i < length a \<and> j < length (a ! i) then Inr (a ! i ! j) else Inl IndexError)"

subsection \<open>The state of a \<open>Gapfiller\<close>\<close>

datatype learner = SVR | OtherLearner

datatype hyper = Custom | RandomGridSearch | FullGridSearch | OtherHyper

datatype strategy = AllPoints | RandomPoints | LCC | OtherStrategy

text \<open>
  \<open>actual_matrix\<close> is an xarray Dataset: its variables by name, in order. \<open>extra_matrix_lcc\<close>
  stands for the array read from \<open>extra_matrix_lcc.nc\<close> by \<open>get_extra_matrix_points\<close>, its class
  codes carried as float64 values. \<open>gap_value\<close> is NaN for real gaps and \<open>-100\<close> for simulated
  ones.
\<close>

type_synonym dataset = "(string \<times> matrix) list"

record gapfiller =
  learning_function :: learner
  hyperparameters :: hyper
  predictor :: strategy
  gap_value :: float64
  actual_matrix :: dataset
  temp_gap_array :: matrix
  temp_known_pixels :: int
  training_data :: "matrix list"
  extra_matrix_lcc :: matrix

subsection \<open>\<open>process_gap_array\<close>\<close>

text \<open>
  The array of the chosen gap size is passed in (\<open>self.data_with_gaps[gap_size]\<close>). The first
  statement reads \<open>self.training_data[0]\<close>, which raises on a cube without time steps. The
  function stores the array and the count of known pixels in the object and returns the gap
  indices.
\<close>

definition known_pixels :: "float64 \<Rightarrow> matrix \<Rightarrow> int" where
  "known_pixels gv a =
     (if isnan gv then int (size_m a) - int (count_where isnan a)
      else int (size_m a) - int (count_where (\<lambda>x. feq x gv) a) - int (count_where isnan a))"

definition gap_pixels :: "float64 \<Rightarrow> matrix \<Rightarrow> coord list" where
  "gap_pixels gv a = (if isnan gv then argwhere isnan a else argwhere (\<lambda>x. feq x gv) a)"

definition process_gap_array :: "gapfiller \<Rightarrow> matrix \<Rightarrow> error + (gapfiller \<times> coord list)" where
  "process_gap_array self a =
     (if training_data self = [] then Inl IndexError
      else Inr (self\<lparr>temp_gap_array := a, temp_known_pixels := known_pixels (gap_value self) a\<rparr>,
                gap_pixels (gap_value self) a))"

subsection \<open>\<open>get_random_points\<close>\<close>

text \<open>
  A predictor selection is a coordinate list or the message string that signals too few known
  pixels.
\<close>

datatype selection = Coords "coord list" | Message string

definition not_enough :: string where
  "not_enough = ''Not enough known pixels - proceed with interpolation''"

text \<open>
  The random source is a list of pairs of naturals, one pair per iteration of the loop;
  \<open>random.randint(0, n - 1)\<close> maps a raw number into \<open>0..n-1\<close> and raises on the empty range.
\<close>

definition randint0 :: "nat \<Rightarrow> nat \<Rightarrow> error + nat" where
  "randint0 n r = (if n = 0 then Inl ValueError else Inr (r mod n))"

text \<open>
  The loop \<open>while number_iter <= iter_value\<close>. One pair of draws is consumed per iteration; a
  cell close to \<open>-100\<close> or close to NaN is passed over, as is a coordinate already collected.
\<close>

fun sample_loop :: "matrix \<Rightarrow> nat \<Rightarrow> (nat \<times> nat) list \<Rightarrow> coord list \<Rightarrow> nat \<Rightarrow> error + coord list" where
  "sample_loop a iter_value [] coords number_iter =
     (if number_iter \<le> iter_value then Inl DrawsExhausted else Inr coords)"
| "sample_loop a iter_value ((r1, r2) # draws) coords number_iter =
     (if number_iter \<le> iter_value then
        bind_err (randint0 (shape0 a) r1) (\<lambda>random_i.
        bind_err (randint0 (shape1 a) r2) (\<lambda>random_j.
        bind_err (getitem2 a random_i random_j) (\<lambda>v.
          if isclose v (Fin (- 100)) \<or> isclose v NaN then
            sample_loop a iter_value draws coords number_iter
          else if (random_i, random_j) \<in> set coords then
            sample_loop a iter_value draws coords number_iter
          else
            sample_loop a iter_value draws (coords @ [(random_i, random_j)]) (number_iter + 1))))
      else Inr coords)"

definition get_random_points :: "gapfiller \<Rightarrow> (nat \<times> nat) list \<Rightarrow> error + selection" where
  "get_random_points self draws =
     (if temp_known_pixels self \<ge> 100 then
        bind_err (sample_loop (temp_gap_array self) 100 draws [] 0) (\<lambda>coords. Inr (Coords coords))
      else if temp_known_pixels self \<ge> 50 then
        (if isnan (gap_value self) then Inr (Coords (argwhere (\<lambda>x. \<not> isnan x) (temp_gap_array self)))
         else Inr (Coords (argwhere (\<lambda>x. fne x (gap_value self)) (temp_gap_array self))))
      else Inr (Message not_enough))"

subsection \<open>\<open>get_extra_matrix_points\<close>\<close>

text \<open>
  \<open>np.where(cond, gap_value, extra_matrix)\<close> on two arrays of the same shape; arrays of
  different shapes raise (broadcasting of a one-row or one-column array is not modelled).
\<close>

definition mask_extra :: "(float64 \<Rightarrow> bool) \<Rightarrow> float64 \<Rightarrow> matrix \<Rightarrow> matrix \<Rightarrow> error + matrix" where
  "mask_extra cond gv a extra =
     (if map length a = map length extra
      then Inr (map (\<lambda>(r, e). map (\<lambda>(x, c). if cond x then gv else c) (zip r e)) (zip a extra))
      else Inl ValueError)"

text \<open>
  \<open>scipy.spatial.distance.cdist\<close> gives the Euclidean distances from the target pixel. The
  loop only compares distances (\<open>np.argmin\<close>), and the square root is monotone, so the model
  keeps the squared distance, a natural number; \<open>np.inf\<close> is \<open>\<infinity>\<close>.
\<close>

definition sqdist :: "coord \<Rightarrow> coord \<Rightarrow> nat" where
  "sqdist g c = nat ((int (fst c) - int (fst g))\<^sup>2 + (int (snd c) - int (snd g))\<^sup>2)"

definition cdist :: "coord \<Rightarrow> coord list \<Rightarrow> enat list" where
  "cdist g coords = map (\<lambda>c. enat (sqdist g c)) coords"

text \<open>\<open>np.argmin\<close>: the first index of a minimal entry.\<close>

definition argmin :: "enat list \<Rightarrow> nat" where
  "argmin ds = arg_min_list (\<lambda>i. ds ! i) [0..<length ds]"

text \<open>The loop \<open>for iter in range(min(40, len(coords)))\<close>, with the iterations left as counter.\<close>

fun select_nearest :: "nat \<Rightarrow> coord list \<Rightarrow> enat list \<Rightarrow> coord list \<Rightarrow> coord list" where
  "select_nearest 0 coords distances selected_coords = selected_coords"
| "select_nearest (Suc k) coords distances selected_coords =
     (let index_min_dist = argmin distances;
          new_coord = coords ! index_min_dist
      in select_nearest k coords (distances[index_min_dist := \<infinity>]) (selected_coords @ [new_coord]))"

definition lcc_candidates :: "gapfiller \<Rightarrow> coord \<Rightarrow> error + coord list" where
  "lcc_candidates self gap_index =
     bind_err (getitem2 (extra_matrix_lcc self) (fst gap_index) (snd gap_index)) (\<lambda>extra_code.
     bind_err (if isnan (gap_value self)
               then mask_extra isnan (gap_value self) (temp_gap_array self) (extra_matrix_lcc self)
               else mask_extra (\<lambda>x. feq x (gap_value self)) (gap_value self)
                      (temp_gap_array self) (extra_matrix_lcc self)) (\<lambda>new_extra_matrix.
     Inr (argwhere (\<lambda>x. feq x extra_code) new_extra_matrix)))"

definition nearest_with_self :: "coord \<Rightarrow> coord list \<Rightarrow> coord list" where
  "nearest_with_self gap_index coords =
     select_nearest (min 40 (length coords)) coords (cdist gap_index coords) [] @ [gap_index]"

definition get_extra_matrix_points :: "gapfiller \<Rightarrow> coord \<Rightarrow> (nat \<times> nat) list \<Rightarrow> error + selection" where
  "get_extra_matrix_points self gap_index draws =
     bind_err (lcc_candidates self gap_index) (\<lambda>coords.
       if length coords < 40 then
         bind_err (get_random_points self draws) (\<lambda>sel.
           case sel of
             Message m \<Rightarrow> Inr (Message m)
           | Coords coords' \<Rightarrow> Inr (Coords (nearest_with_self gap_index coords')))
       else Inr (Coords (nearest_with_self gap_index coords)))"

subsection \<open>\<open>interpolation\<close>\<close>

text \<open>
  \<open>scipy.interpolate.griddata(..., method='nearest')\<close> at one query point returns the value of
  a known point at minimal Euclidean distance. Which of several equidistant points is taken is
  left to scipy's KD-tree; the model takes the first in row-major order, and the theorems
  below use only that the value is that of a nearest known point. With no known point there
  is nothing to return: the model reports \<open>EmptyScatter\<close>.
\<close>

definition known_scatter :: "matrix \<Rightarrow> (coord \<times> float64) list" where
  "known_scatter copy_matrix =
     concat (map (\<lambda>i. map (\<lambda>j. ((i, j), copy_matrix ! i ! j))
                        (filter (\<lambda>j. \<not> isnan (copy_matrix ! i ! j)) [0..<length (copy_matrix ! i)]))
                 [0..<length copy_matrix])"

definition griddata_nearest :: "(coord \<times> float64) list \<Rightarrow> coord \<Rightarrow> error + float64" where
  "griddata_nearest known g =
     (if known = [] then Inl EmptyScatter
      else Inr (snd (arg_min_list (\<lambda>p. sqdist g (fst p)) known)))"

text \<open>The count tested against 10, as written: \<open>size - (a == -100).sum() + isnan(a).sum()\<close>.\<close>

definition interpolation_count :: "matrix \<Rightarrow> int" where
  "interpolation_count a =
     int (size_m a) - int (count_where (\<lambda>x. feq x (Fin (- 100))) a) + int (count_where isnan a)"

definition mask_gaps :: "float64 \<Rightarrow> matrix \<Rightarrow> matrix" where
  "mask_gaps gv a = map (map (\<lambda>x. if feq x gv then NaN else x)) a"

text \<open>
  The result is \<open>None\<close> where the function prints its message and falls off its end, and the
  interpolated value otherwise.
\<close>

definition interpolation :: "gapfiller \<Rightarrow> coord \<Rightarrow> error + float64 option" where
  "interpolation self gap_index =
     (if interpolation_count (temp_gap_array self) \<le> 10 then Inr None
      else
        bind_err (griddata_nearest (known_scatter (mask_gaps (gap_value self) (temp_gap_array self)))
                    gap_index) (\<lambda>predicted.
        Inr (Some predicted)))"

subsection \<open>Data frames\<close>

text \<open>
  A pandas DataFrame: the column labels and the values by row. Rows are only addressed by
  position (\<open>iloc\<close>), so the row index is not kept. A frame built from an array has the integer
  labels \<open>0..n-1\<close>.
\<close>

datatype label = IntLabel nat | StrLabel string

record dataframe =
  columns :: "label list"
  cells :: "float64 list list"

fun mapM_err :: "('a \<Rightarrow> error + 'b) \<Rightarrow> 'a list \<Rightarrow> error + 'b list" where
  "mapM_err f [] = Inr []"
| "mapM_err f (x # xs) = bind_err (f x) (\<lambda>y. bind_err (mapM_err f xs) (\<lambda>ys. Inr (y # ys)))"

fun fold_err :: "('a \<Rightarrow> 'b \<Rightarrow> error + 'b) \<Rightarrow> 'a list \<Rightarrow> 'b \<Rightarrow> error + 'b" where
  "fold_err f [] s = Inr s"
| "fold_err f (x # xs) s = bind_err (f x s) (\<lambda>s'. fold_err f xs s')"

text \<open>\<open>str(i)\<close> for a non-negative integer.\<close>

fun str_nat :: "nat \<Rightarrow> string" where
  "str_nat n = (if n < 10 then [char_of (48 + n)] else str_nat (n div 10) @ [char_of (48 + n mod 10)])"

text \<open>
  \<open>set_axis(labels, axis=1, copy=False)\<close> returns a frame with the new labels and leaves the
  frame it is called on as it is; it raises when the number of labels is wrong.
\<close>

definition set_axis :: "label list \<Rightarrow> dataframe \<Rightarrow> error + dataframe" where
  "set_axis labels df =
     (if length labels = length (columns df) then Inr (df\<lparr>columns := labels\<rparr>) else Inl ValueError)"

definition replace_df :: "float64 \<Rightarrow> float64 \<Rightarrow> dataframe \<Rightarrow> dataframe" where
  "replace_df old new df = df\<lparr>cells := map (map (\<lambda>x. if feq x old then new else x)) (cells df)\<rparr>"

definition dropna_all :: "dataframe \<Rightarrow> dataframe" where
  "dropna_all df = df\<lparr>cells := filter (\<lambda>r. \<not> list_all isnan r) (cells df)\<rparr>"

definition dropna_any :: "float64 list list \<Rightarrow> float64 list list" where
  "dropna_any rows = filter (\<lambda>r. \<not> list_ex isnan r) rows"

text \<open>\<open>drop([l], axis=1)\<close>: the columns labelled \<open>l\<close> go; a label that is absent raises.\<close>

definition drop_column :: "label \<Rightarrow> dataframe \<Rightarrow> error + dataframe" where
  "drop_column l df =
     (if l \<in> set (columns df) then
        Inr (df\<lparr>columns := filter (\<lambda>c. c \<noteq> l) (columns df),
                cells := map (\<lambda>r. map snd (filter (\<lambda>(c, x). c \<noteq> l) (zip (columns df) r))) (cells df)\<rparr>)
      else Inl KeyError)"

subsection \<open>\<open>create_dataframe\<close>, \<open>preprocess_dataframe\<close>, \<open>get_train_test_sets\<close>\<close>

definition create_dataframe :: "gapfiller \<Rightarrow> coord list \<Rightarrow> error + dataframe" where
  "create_dataframe self coords =
     bind_err (mapM_err (\<lambda>t. mapM_err (\<lambda>(i, j). getitem2 t i j) coords) (training_data self)) (\<lambda>hist.
     bind_err (mapM_err (\<lambda>(i, j). getitem2 (temp_gap_array self) i j) coords) (\<lambda>target.
     Inr \<lparr>columns = map IntLabel [0..<length coords], cells = hist @ [target]\<rparr>))"

text \<open>
  \<open>last_row\<close> is \<open>iloc[-1:, :-1]\<close>: the last row without its last entry (empty for a frame
  without rows). The columns to drop are addressed by the integer label \<open>int(i)\<close>. The frame
  returned is the one the columns were dropped from: the result of the closing \<open>set_axis\<close> is
  not bound to anything.
\<close>

definition last_row_of :: "dataframe \<Rightarrow> float64 list" where
  "last_row_of df = (case cells df of [] \<Rightarrow> [] | _ \<Rightarrow> butlast (last (cells df)))"

definition preprocess_dataframe :: "dataframe \<Rightarrow> error + dataframe" where
  "preprocess_dataframe dataframe =
     (let last_row = last_row_of dataframe;
          indexes_na = filter (\<lambda>i. isnan (last_row ! i)) [0..<length last_row]
      in if length indexes_na > 0 then
           bind_err (fold_err (\<lambda>i df. drop_column (IntLabel i) df) indexes_na dataframe) (\<lambda>dataframe'.
           bind_err (set_axis (map (\<lambda>i. StrLabel (str_nat i)) [0..<length (columns dataframe')])
                       dataframe') (\<lambda>unbound.
           Inr dataframe'))
         else Inr dataframe)"

definition get_train_test_sets :: "dataframe \<Rightarrow> matrix \<times> matrix \<times> matrix" where
  "get_train_test_sets dataframe =
     (let train = butlast (cells dataframe);
          test = drop (length (cells dataframe) - 1) (cells dataframe);
          train = dropna_any train
      in (map butlast train, map (\<lambda>r. drop (length r - 1) r) train, map butlast test))"

subsection \<open>\<open>train_model\<close>\<close>

text \<open>
  scikit-learn is outside the repository: its calls are parameters. \<open>scale\<close> is
  \<open>preprocessing.scale\<close>; \<open>cross_val_score\<close> returns the array of the scores of the folds;
  \<open>fit_predict\<close> is \<open>estimator.fit\<close> followed by \<open>estimator.predict\<close>; \<open>search_fit\<close> is
  \<open>optimizer.fit\<close>, giving \<open>best_score_\<close>, and \<open>search_predict\<close> the prediction of
  \<open>best_estimator_\<close>.
\<close>

record sklearn =
  scale :: "matrix \<Rightarrow> error + matrix"
  cross_val_score :: "matrix \<Rightarrow> float64 list \<Rightarrow> error + float64 list"
  fit_predict :: "matrix \<Rightarrow> float64 list \<Rightarrow> matrix \<Rightarrow> error + float64 list"
  search_fit :: "hyper \<Rightarrow> matrix \<Rightarrow> float64 list \<Rightarrow> error + float64"
  search_predict :: "hyper \<Rightarrow> matrix \<Rightarrow> float64 list \<Rightarrow> matrix \<Rightarrow> error + float64 list"

text \<open>
  A validation score as the code produces it: a number, an array of numbers, the string
  \<open>"not available"\<close>, or Python's \<open>None\<close>.
\<close>

datatype score = Score float64 | Scores "float64 list" | NotAvailable | NoScore

fun fabs :: "float64 \<Rightarrow> float64" where
  "fabs (Fin a) = Fin \<bar>a\<bar>"
| "fabs NaN = NaN"
| "fabs _ = PInf"

fun fsub :: "float64 \<Rightarrow> float64 \<Rightarrow> float64" where
  "fsub (Fin a) (Fin b) = Fin (a - b)"
| "fsub NaN _ = NaN"
| "fsub _ NaN = NaN"
| "fsub PInf PInf = NaN"
| "fsub NInf NInf = NaN"
| "fsub PInf _ = PInf"
| "fsub NInf _ = NInf"
| "fsub _ PInf = NInf"
| "fsub _ NInf = PInf"

text \<open>
  The result is \<open>None\<close> for the pair \<open>(None, None)\<close>. A bare \<open>except\<close> turns every failure of
  the guarded call into that pair; with a hyperparameter mode that is none of the three,
  \<open>optimizer\<close> is unbound and the guarded call fails. With a learning function other than SVR
  the final \<open>return\<close> reads unbound names.
\<close>

definition train_model ::
  "sklearn \<Rightarrow> gapfiller \<Rightarrow> matrix \<Rightarrow> matrix \<Rightarrow> matrix \<Rightarrow> error + (float64 list \<times> score) option" where
  "train_model sk self X_train y_train X_test =
     (if learning_function self = SVR then
        bind_err (scale sk (X_train @ X_test)) (\<lambda>sample.
          let X_train = butlast sample;
              X_test = drop (length sample - 1) sample
          in if hyperparameters self = Custom then
               (case cross_val_score sk X_train (concat y_train) of
                  Inl e \<Rightarrow> Inr None
                | Inr validation_score \<Rightarrow>
                    bind_err (fit_predict sk X_train (concat y_train) X_test) (\<lambda>predicted.
                    Inr (Some (predicted, Scores validation_score))))
             else
               (case (if hyperparameters self = RandomGridSearch \<or> hyperparameters self = FullGridSearch
                      then search_fit sk (hyperparameters self) X_train (concat y_train)
                      else Inl UnboundLocalError) of
                  Inl e \<Rightarrow> Inr None
                | Inr best_score \<Rightarrow>
                    bind_err (search_predict sk (hyperparameters self) X_train (concat y_train) X_test)
                      (\<lambda>predicted.
                    Inr (Some (predicted, Score (fabs best_score))))))
      else Inl UnboundLocalError)"

subsection \<open>\<open>pixel_model\<close>\<close>

text \<open>
  A Gap Result: the coordinate, the prediction (\<open>None\<close> when the interpolation gave nothing),
  the actual score and the validation score.
\<close>

type_synonym gap_result = "coord \<times> float64 option \<times> score \<times> score"

text \<open>The choice of the predictor coordinates; with an unknown strategy \<open>coords\<close> stays unbound.\<close>

definition select_coords :: "gapfiller \<Rightarrow> coord \<Rightarrow> (nat \<times> nat) list \<Rightarrow> error + selection" where
  "select_coords self gap_index draws =
     (case predictor self of
        AllPoints \<Rightarrow>
          (if isnan (gap_value self)
           then Inr (Coords (argwhere (\<lambda>x. \<not> isnan x) (temp_gap_array self)))
           else Inr (Coords (argwhere (\<lambda>x. fne x (gap_value self)) (temp_gap_array self))))
      | RandomPoints \<Rightarrow> get_random_points self draws
      | LCC \<Rightarrow> get_extra_matrix_points self gap_index draws
      | OtherStrategy \<Rightarrow> Inl UnboundLocalError)"

text \<open>
  \<open>self.actual_matrix[gap_index[0], gap_index[1]]\<close> indexes the Dataset itself with a pair of
  integers. A Dataset looks a hashable key up among the names of its variables, and a pair of
  integers is no such name: the lookup raises.
\<close>

definition dataset_getitem_pair :: "dataset \<Rightarrow> coord \<Rightarrow> error + float64" where
  "dataset_getitem_pair ds gap_index = Inl KeyError"

text \<open>
  The first variable that is no coordinate variable, and
  \<open>self.actual_matrix[variable].data[i, j]\<close>.
\<close>

definition first_variable :: "dataset \<Rightarrow> error + string" where
  "first_variable ds =
     (case filter (\<lambda>v. v \<notin> set [''lat'', ''lon'', ''time'']) (map fst ds) of
        [] \<Rightarrow> Inl IndexError
      | v # _ \<Rightarrow> Inr v)"

definition dataset_data :: "dataset \<Rightarrow> string \<Rightarrow> coord \<Rightarrow> error + float64" where
  "dataset_data ds variable gap_index =
     (case map_of ds variable of
        None \<Rightarrow> Inl KeyError
      | Some m \<Rightarrow> getitem2 m (fst gap_index) (snd gap_index))"

text \<open>\<open>abs(actual_value - prediction)\<close>; subtracting \<open>None\<close> raises.\<close>

definition abs_error :: "float64 \<Rightarrow> float64 option \<Rightarrow> error + float64" where
  "abs_error actual_value prediction =
     (case prediction of None \<Rightarrow> Inl TypeError | Some p \<Rightarrow> Inr (fabs (fsub actual_value p)))"

text \<open>\<open>X_train.any()\<close>: some entry is not zero (NaN counts as not zero).\<close>

definition any_m :: "matrix \<Rightarrow> bool" where
  "any_m X = list_ex (list_ex (\<lambda>x. x \<noteq> Fin 0)) X"

text \<open>\<open>prediction.item()\<close> on an array of one element.\<close>

definition item :: "float64 list \<Rightarrow> error + float64" where
  "item xs = (case xs of [x] \<Rightarrow> Inr x | _ \<Rightarrow> Inl ValueError)"

text \<open>
  The feature table of \<open>pixel_model\<close>: the frame is created, the result of \<open>set_axis\<close> is not
  bound to anything, \<open>-100\<close> becomes NaN, rows that are all NaN go, and the frame is
  preprocessed.
\<close>

definition build_table :: "gapfiller \<Rightarrow> coord list \<Rightarrow> error + dataframe" where
  "build_table self coords =
     bind_err (create_dataframe self coords) (\<lambda>dataframe.
     bind_err (set_axis (map (\<lambda>i. StrLabel (str_nat i)) [0..<length (columns dataframe)]) dataframe)
       (\<lambda>unbound.
     preprocess_dataframe (dropna_all (replace_df (Fin (- 100)) NaN dataframe))))"

definition pixel_model :: "sklearn \<Rightarrow> gapfiller \<Rightarrow> (nat \<times> nat) list \<Rightarrow> coord \<Rightarrow> error + gap_result" where
  "pixel_model sk self draws gap_index =
     bind_err (select_coords self gap_index draws) (\<lambda>sel.
       case sel of
         Message m \<Rightarrow>
           bind_err (interpolation self gap_index) (\<lambda>prediction.
             if fne (gap_value self) (Fin (- 100)) then
               bind_err (dataset_getitem_pair (actual_matrix self) gap_index) (\<lambda>actual_value.
               bind_err (abs_error actual_value prediction) (\<lambda>actual_score.
               Inr (gap_index, prediction, Score actual_score, NotAvailable)))
             else Inr (gap_index, prediction, NotAvailable, NotAvailable))
       | Coords coords \<Rightarrow>
           bind_err (build_table self
                       (if predictor self \<noteq> LCC then coords @ [gap_index] else coords)) (\<lambda>dataframe.
           case get_train_test_sets dataframe of (X_train, y_train, X_test) \<Rightarrow>
           bind_err (if \<not> any_m X_train then
                       bind_err (interpolation self gap_index) (\<lambda>p.
                       Inr (map_option (\<lambda>v. [v]) p, NotAvailable))
                     else
                       bind_err (train_model sk self X_train y_train X_test) (\<lambda>r.
                       Inr (case r of None \<Rightarrow> (None, NoScore)
                                    | Some (predicted, vs) \<Rightarrow> (Some predicted, vs))))
             (\<lambda>(prediction, validation_score).
           bind_err (case prediction of
                       None \<Rightarrow> bind_err (interpolation self gap_index) (\<lambda>p. Inr (p, NotAvailable))
                     | Some predicted \<Rightarrow> bind_err (item predicted) (\<lambda>v. Inr (Some v, validation_score)))
             (\<lambda>(prediction, validation_score).
           if feq (gap_value self) (Fin (- 100)) then
             bind_err (first_variable (actual_matrix self)) (\<lambda>variable.
             bind_err (dataset_data (actual_matrix self) variable gap_index) (\<lambda>actual_value.
             bind_err (abs_error actual_value prediction) (\<lambda>actual_score.
             Inr (gap_index, prediction, Score actual_score, validation_score))))
           else Inr (gap_index, prediction, NotAvailable, validation_score)))))"

subsection \<open>\<open>fill_the_gaps\<close>\<close>

text \<open>
  \<open>pool.imap\<close> yields the results of \<open>pixel_model\<close> in the order of the gap indices, and the
  first exception among them is raised out of \<open>fill_the_gaps\<close> when the loop reaches it. Each
  call has its own random draws, \<open>rnd g\<close>. \<open>gap_results\<close> is the sequence of Gap Results the
  iterator \<open>results\<close> yields; \<open>fill_step\<close> is the body of the loop over it. Assigning \<open>None\<close>
  to a float cell stores NaN.
\<close>

definition gap_results ::
  "sklearn \<Rightarrow> gapfiller \<Rightarrow> (coord \<Rightarrow> (nat \<times> nat) list) \<Rightarrow> coord list \<Rightarrow> error + gap_result list" where
  "gap_results sk self rnd gap_indices = mapM_err (\<lambda>g. pixel_model sk self (rnd g) g) gap_indices"

definition setitem2 :: "matrix \<Rightarrow> coord \<Rightarrow> float64 option \<Rightarrow> error + matrix" where
  "setitem2 a g v =
     (if fst g < length a \<and> snd g < length (a ! fst g)
      then Inr (a[fst g := (a ! fst g)[snd g := (case v of None \<Rightarrow> NaN | Some x \<Rightarrow> x)]])
      else Inl IndexError)"

definition fill_step ::
  "sklearn \<Rightarrow> gapfiller \<Rightarrow> (coord \<Rightarrow> (nat \<times> nat) list) \<Rightarrow> coord
     \<Rightarrow> matrix \<times> score list \<times> score list \<Rightarrow> error + (matrix \<times> score list \<times> score list)" where
  "fill_step sk self rnd g st =
     (case st of (filled_array, actual_scores, validation_scores) \<Rightarrow>
        bind_err (pixel_model sk self (rnd g) g) (\<lambda>gap_pred_score.
        bind_err (setitem2 filled_array (fst gap_pred_score) (fst (snd gap_pred_score))) (\<lambda>filled_array.
        Inr (filled_array,
             actual_scores @ [fst (snd (snd gap_pred_score))],
             validation_scores @ [snd (snd (snd gap_pred_score))]))))"

definition fill_the_gaps ::
  "sklearn \<Rightarrow> gapfiller \<Rightarrow> (coord \<Rightarrow> (nat \<times> nat) list) \<Rightarrow> coord list
     \<Rightarrow> error + (matrix \<times> score list \<times> score list)" where
  "fill_the_gaps sk self rnd gap_indices =
     fold_err (fill_step sk self rnd) gap_indices (temp_gap_array self, [], [])"

section \<open>Auxiliary notions and concrete inputs\<close>

text \<open>A cell the sampling loop accepts: the negation of the test that makes it pass over a draw.\<close>

definition valid_cell :: "float64 \<Rightarrow> bool" where
  "valid_cell v = (\<not> (isclose v (Fin (- 100)) \<or> isclose v NaN))"

text \<open>A numpy array of two dimensions with at least one cell: all rows have the same length.\<close>

definition rectangular :: "matrix \<Rightarrow> bool" where
  "rectangular a = (0 < shape0 a \<and> 0 < shape1 a \<and> list_all (\<lambda>r. length r = shape1 a) a)"

text \<open>
  A Gapfiller before \<open>process_gap_array\<close> has run, with the data variable \<open>var\<close> of its
  Dataset and its historical cube, and the same object with the array and the count of known
  pixels stored.
\<close>

definition gapfiller_on :: "strategy \<Rightarrow> float64 \<Rightarrow> matrix \<Rightarrow> matrix list \<Rightarrow> gapfiller" where
  "gapfiller_on p gv truth hist =
     \<lparr>learning_function = SVR, hyperparameters = Custom, predictor = p, gap_value = gv,
      actual_matrix = [(''lat'', []), (''lon'', []), (''var'', truth)],
      temp_gap_array = [], temp_known_pixels = 0,
      training_data = hist, extra_matrix_lcc = []\<rparr>"

definition with_array :: "gapfiller \<Rightarrow> matrix \<Rightarrow> int \<Rightarrow> gapfiller" where
  "with_array self a k = self\<lparr>temp_gap_array := a, temp_known_pixels := k\<rparr>"

text \<open>
  A grid of 10 rows and 11 columns whose cells are 1, except the cell \<open>(0, 0)\<close>; 101 draws that
  hit 101 different cells of it other than \<open>(0, 0)\<close>; and a grid of 10 rows and 11 columns
  whose last column is \<open>-100\<close>, with exactly 100 other cells. The Gapfillers on them select
  random points; their cube has one historical time step.
\<close>

definition grid_with :: "float64 \<Rightarrow> matrix" where
  "grid_with x = (x # replicate 10 (Fin 1)) # replicate 9 (replicate 11 (Fin 1))"

definition draws_101 :: "(nat \<times> nat) list" where
  "draws_101 = [(0, 1), (0, 2)] @ List.product [1..<10] [0..<11]"

definition grid_100 :: matrix where
  "grid_100 = replicate 10 (replicate 10 (Fin 1) @ [Fin (- 100)])"

definition grid_filler :: "float64 \<Rightarrow> gapfiller" where
  "grid_filler gv =
     gapfiller_on RandomPoints gv (grid_with (if isnan gv then NaN else Fin 1)) [grid_with (Fin 1)]"

text \<open>
  A grid of 3 rows and 4 columns whose cells are 5, except the cell \<open>(0, 0)\<close>, and a cube of
  three time steps in which the pixel \<open>(0, 0)\<close> has the values 1, 2, 3 and every other pixel is 0.
\<close>

definition small_grid :: "float64 \<Rightarrow> matrix" where
  "small_grid x = (x # replicate 3 (Fin 5)) # replicate 2 (replicate 4 (Fin 5))"

definition zero_history :: "matrix list" where
  "zero_history =
     map (\<lambda>k. (Fin k # replicate 3 (Fin 0)) # replicate 2 (replicate 4 (Fin 0))) [1, 2, 3]"

definition small_filler :: "strategy \<Rightarrow> gapfiller" where
  "small_filler p = with_array (gapfiller_on p NaN (small_grid NaN) zero_history) (small_grid NaN) 11"

text \<open>The feature table of the pixel \<open>(0, 0)\<close> of that grid with all known points as predictors.\<close>

definition small_table :: dataframe where
  "small_table =
     \<lparr>columns = map IntLabel [0..<12],
      cells = map (\<lambda>k. replicate 11 (Fin 0) @ [Fin k]) [1, 2, 3] @ [replicate 11 (Fin 5) @ [NaN]]\<rparr>"

text \<open>
  A scikit-learn whose cross-validation gives the fold scores \<open>-1, -2, -3\<close>, whose grid search
  gives the best score \<open>-2\<close>, and whose estimators predict 9.
\<close>

definition a_sklearn :: sklearn where
  "a_sklearn =
     \<lparr>scale = Inr,
      cross_val_score = (\<lambda>X y. Inr [Fin (- 1), Fin (- 2), Fin (- 3)]),
      fit_predict = (\<lambda>X y Xt. Inr [Fin 9]),
      search_fit = (\<lambda>h X y. Inr (Fin (- 2))),
      search_predict = (\<lambda>h X y Xt. Inr [Fin 9])\<rparr>"

text \<open>
  For the selection loop of \<open>get_extra_matrix_points\<close>: the indices it extracts, in order, and
  the indices whose distance has not been replaced by \<open>np.inf\<close>.
\<close>

fun select_indices :: "nat \<Rightarrow> enat list \<Rightarrow> nat list" where
  "select_indices 0 ds = []"
| "select_indices (Suc k) ds = argmin ds # select_indices k (ds[argmin ds := \<infinity>])"

definition live :: "enat list \<Rightarrow> nat list" where
  "live ds = filter (\<lambda>i. ds ! i \<noteq> \<infinity>) [0..<length ds]"

text \<open>
  A grid of 7 rows and 8 columns whose cells are 5, with a NaN gap at \<open>(3, 3)\<close>; a class matrix
  with class 1 in the first seven columns and class 2 in the last; and the Gapfiller on them.
  The pixels of the class of the gap pixel that are no gaps are 48.
\<close>

definition lcc_grid :: "float64 \<Rightarrow> matrix" where
  "lcc_grid x =
     replicate 3 (replicate 8 (Fin 5)) @ [replicate 3 (Fin 5) @ [x] @ replicate 4 (Fin 5)]
     @ replicate 3 (replicate 8 (Fin 5))"

definition lcc_classes :: matrix where
  "lcc_classes = replicate 7 (replicate 7 (Fin 1) @ [Fin 2])"

definition lcc_filler :: gapfiller where
  "lcc_filler =
     (with_array (gapfiller_on LCC NaN (lcc_grid NaN) [lcc_grid (Fin 4)]) (lcc_grid NaN) 55)
       \<lparr>extra_matrix_lcc := lcc_classes\<rparr>"

definition lcc_cands :: "coord list" where
  "lcc_cands = filter (\<lambda>c. c \<noteq> (3, 3)) (List.product [0..<7] [0..<7])"

text \<open>
  The count the description of the interpolator speaks of: the values that are usable after the
  gap marker has been masked as missing.
\<close>

definition usable_known :: "float64 \<Rightarrow> matrix \<Rightarrow> nat" where
  "usable_known gv a = count_where (\<lambda>x. \<not> isnan (if feq x gv then NaN else x)) a"

text \<open>
  Two Gapfillers in the sentinel mode on grids of 3 rows and 4 columns: one with two gaps and
  ten known pixels, one with one gap and eleven known pixels.
\<close>

definition ten_known_grid :: matrix where
  "ten_known_grid = [Fin (- 100), Fin (- 100), Fin 5, Fin 5] # replicate 2 (replicate 4 (Fin 5))"

definition ten_known_filler :: gapfiller where
  "ten_known_filler =
     with_array (gapfiller_on RandomPoints (Fin (- 100)) (small_grid (Fin 5)) zero_history)
       ten_known_grid 10"

definition eleven_known_filler :: gapfiller where
  "eleven_known_filler =
     with_array (gapfiller_on RandomPoints (Fin (- 100)) (small_grid (Fin 5)) zero_history)
       (small_grid (Fin (- 100))) 11"

text \<open>
  For the feature table: a row without the entries of the columns labelled in \<open>L\<close>, and a
  frame whose rows all have one entry per column.
\<close>

definition without_columns :: "label set \<Rightarrow> label list \<Rightarrow> float64 list \<Rightarrow> float64 list" where
  "without_columns L cols r = map snd (filter (\<lambda>(c, x). c \<notin> L) (zip cols r))"

definition well_formed :: "dataframe \<Rightarrow> bool" where
  "well_formed df = (\<forall>r\<in>set (cells df). length r = length (columns df))"

text \<open>
  A Target Matrix of one row in the sentinel mode, with a known pixel, a NaN pixel and a gap; a
  cube of two time steps, the first of which has a value only at the NaN pixel; the Gapfiller
  on them with all points as predictors; the frame \<open>create_dataframe\<close> builds for the gap
  pixel, and the feature table \<open>pixel_model\<close> gets from it.
\<close>

definition cloud_grid :: matrix where
  "cloud_grid = [[Fin 1, NaN, Fin (- 100)]]"

definition cloud_history :: "matrix list" where
  "cloud_history = [[[NaN, Fin 5, NaN]], [[Fin 2, Fin 3, Fin 4]]]"

definition cloud_filler :: gapfiller where
  "cloud_filler =
     with_array (gapfiller_on AllPoints (Fin (- 100)) [[Fin 1, NaN, Fin 7]] cloud_history) cloud_grid 1"

definition cloud_frame :: dataframe where
  "cloud_frame =
     \<lparr>columns = [IntLabel 0, IntLabel 1, IntLabel 2],
      cells = [[NaN, Fin 5, NaN], [Fin 2, Fin 3, Fin 4], [Fin 1, NaN, Fin (- 100)]]\<rparr>"

definition cloud_table :: dataframe where
  "cloud_table =
     \<lparr>columns = [IntLabel 0, IntLabel 2],
      cells = [[NaN, NaN], [Fin 2, Fin 4], [Fin 1, NaN]]\<rparr>"

section \<open>Properties\<close>

subsection \<open>Error propagation and \<open>argwhere\<close>\<close>

lemma bind_err_Inl: "bind_err (Inl e) f = Inl e"
  by (simp add: bind_err_def)

lemma bind_err_Inr: "bind_err (Inr x) f = f x"
  by (simp add: bind_err_def)

lemma in_row_where: "(i', j) \<in> set (row_where P i r) \<longleftrightarrow> i' = i \<and> j < length r \<and> P (r ! j)"
  by (auto simp: row_where_def)

lemma distinct_row_where: "distinct (row_where P i r)"
  by (simp add: row_where_def distinct_map inj_on_def)

lemma in_argwhere:
  "(i, j) \<in> set (argwhere P a) \<longleftrightarrow> i < length a \<and> j < length (a ! i) \<and> P (a ! i ! j)"
  by (auto simp: argwhere_def in_row_where)

lemma distinct_rows_where:
  "distinct ks \<Longrightarrow> distinct (concat (map (\<lambda>i. row_where P i (f i)) ks))"
proof (induction ks)
  case Nil
  then show ?case by simp
next
  case (Cons k ks)
  have "set (row_where P k (f k)) \<inter> set (concat (map (\<lambda>i. row_where P i (f i)) ks)) = {}"
    using Cons.prems by (auto simp: in_row_where)
  with Cons show ?case by (simp add: distinct_row_where)
qed

lemma distinct_argwhere: "distinct (argwhere P a)"
  unfolding argwhere_def by (rule distinct_rows_where) simp

subsection \<open>The sampling loop of \<open>get_random_points\<close>\<close>

text \<open>
  Whenever the loop returns, the coordinates it returns are distinct, each is a cell the loop
  accepts, and there are \<open>iter_value + 1\<close> of them: the loop leaves when \<open>number_iter\<close> exceeds
  \<open>iter_value\<close>.
\<close>

lemma sample_loop_invariant:
  "sample_loop a iv draws coords n = Inr cs \<Longrightarrow> distinct coords
   \<Longrightarrow> set coords \<subseteq> set (argwhere valid_cell a) \<Longrightarrow> n = length coords \<Longrightarrow> n \<le> iv + 1
   \<Longrightarrow> distinct cs \<and> set cs \<subseteq> set (argwhere valid_cell a) \<and> length cs = iv + 1"
proof (induction a iv draws coords n rule: sample_loop.induct)
  case (1 a iter_value coords number_iter)
  then show ?case by (auto split: if_splits)
next
  case (2 a iter_value r1 r2 draws coords number_iter)
  show ?case
  proof (cases "number_iter \<le> iter_value")
    case False
    with 2 show ?thesis by auto
  next
    case True
    from "2.prems"(1) True obtain i j v where
      i: "randint0 (shape0 a) r1 = Inr i" and j: "randint0 (shape1 a) r2 = Inr j"
      and v: "getitem2 a i j = Inr v"
      by (auto simp: bind_err_def split: sum.splits)
    from v have inb: "i < length a" "j < length (a ! i)" and vv: "v = a ! i ! j"
      by (auto simp: getitem2_def split: if_splits)
    show ?thesis
    proof (cases "isclose v (Fin (- 100)) \<or> isclose v NaN")
      case c1: True
      with "2.prems" True i j v "2.IH"(1)[OF True c1] show ?thesis
        by (simp add: bind_err_def)
    next
      case c1: False
      show ?thesis
      proof (cases "(i, j) \<in> set coords")
        case c2: True
        with "2.prems" True i j v c1 "2.IH"(2)[OF True _ c2, of v] show ?thesis
          by (simp add: bind_err_def)
      next
        case c2: False
        have "(i, j) \<in> set (argwhere valid_cell a)"
          using inb vv c1 by (simp add: in_argwhere valid_cell_def)
        with "2.prems" True i j v c1 c2 "2.IH"(3)[OF True _ c2, of v] show ?thesis
          by (simp add: bind_err_def)
      qed
    qed
  qed
qed

text \<open>On a non-empty array every draw gives a cell of the array.\<close>

lemma rectangular_getitem2:
  assumes "rectangular a"
  shows "\<exists>i j. randint0 (shape0 a) r1 = Inr i \<and> randint0 (shape1 a) r2 = Inr j
           \<and> getitem2 a i j = Inr (a ! i ! j) \<and> i < length a \<and> j < length (a ! i)"
proof -
  from assms have p: "0 < length a" "0 < shape1 a"
    and len: "\<And>i. i < length a \<Longrightarrow> length (a ! i) = shape1 a"
    by (auto simp: rectangular_def shape0_def list_all_length)
  have "r1 mod length a < length a" using p by simp
  moreover have "r2 mod shape1 a < length (a ! (r1 mod length a))" using p len by simp
  ultimately show ?thesis using p
    by (simp add: randint0_def shape0_def getitem2_def)
qed

text \<open>
  With no more than \<open>iter_value\<close> acceptable cells the loop never leaves: whatever the draws
  and however many, it is still running when they are used up.
\<close>

lemma sample_loop_stuck:
  assumes "rectangular a" and "length (argwhere valid_cell a) \<le> iv"
  shows "distinct coords \<Longrightarrow> set coords \<subseteq> set (argwhere valid_cell a) \<Longrightarrow> n = length coords
         \<Longrightarrow> sample_loop a iv draws coords n = Inl DrawsExhausted"
proof (induction draws arbitrary: coords n)
  case Nil
  have "length coords = card (set coords)" using Nil.prems(1) by (simp add: distinct_card)
  also have "\<dots> \<le> card (set (argwhere valid_cell a))" using Nil.prems(2) by (simp add: card_mono)
  also have "\<dots> \<le> length (argwhere valid_cell a)" by (rule card_length)
  finally show ?case using assms(2) Nil.prems(3) by simp
next
  case (Cons d draws)
  obtain r1 r2 where d: "d = (r1, r2)" by (cases d)
  have "length coords = card (set coords)" using Cons.prems(1) by (simp add: distinct_card)
  also have "\<dots> \<le> card (set (argwhere valid_cell a))" using Cons.prems(2) by (simp add: card_mono)
  also have "\<dots> \<le> length (argwhere valid_cell a)" by (rule card_length)
  finally have le: "n \<le> iv" using assms(2) Cons.prems(3) by simp
  from rectangular_getitem2[OF assms(1), of r1 r2] obtain i j where
    ij: "randint0 (shape0 a) r1 = Inr i" "randint0 (shape1 a) r2 = Inr j"
        "getitem2 a i j = Inr (a ! i ! j)" "i < length a" "j < length (a ! i)"
    by blast
  show ?case
  proof (cases "isclose (a ! i ! j) (Fin (- 100)) \<or> isclose (a ! i ! j) NaN")
    case True
    then show ?thesis using d le ij Cons.IH[OF Cons.prems]
      by (simp add: bind_err_def)
  next
    case c1: False
    show ?thesis
    proof (cases "(i, j) \<in> set coords")
      case True
      then show ?thesis using d le ij c1 Cons.IH[OF Cons.prems]
        by (simp add: bind_err_def)
    next
      case False
      have "(i, j) \<in> set (argwhere valid_cell a)"
        using ij c1 by (simp add: in_argwhere valid_cell_def)
      then have "sample_loop a iv draws (coords @ [(i, j)]) (Suc n) = Inl DrawsExhausted"
        using Cons.prems False by (intro Cons.IH) auto
      then show ?thesis using d le ij c1 False
        by (simp add: bind_err_def)
    qed
  qed
qed

subsection \<open>Concrete runs\<close>

lemma filler_fields:
  "gap_value (with_array (gapfiller_on p gv t h) a k) = gv"
  "predictor (with_array (gapfiller_on p gv t h) a k) = p"
  "temp_known_pixels (with_array (gapfiller_on p gv t h) a k) = k"
  "temp_gap_array (with_array (gapfiller_on p gv t h) a k) = a"
  "actual_matrix (with_array (gapfiller_on p gv t h) a k) = [(''lat'', []), (''lon'', []), (''var'', t)]"
  "training_data (with_array (gapfiller_on p gv t h) a k) = h"
  by (simp_all add: with_array_def gapfiller_on_def)

lemma small_process:
  "process_gap_array (gapfiller_on p NaN (small_grid NaN) zero_history) (small_grid NaN)
     = Inr (small_filler p, [(0, 0)])"
  by (cases p; code_simp)

lemma small_interpolation: "interpolation (small_filler p) (0, 0) = Inr (Some (Fin 5))"
  by (cases p; code_simp)

lemma small_select_random:
  "select_coords (small_filler RandomPoints) (0, 0) draws = Inr (Message not_enough)"
  by (simp add: select_coords_def get_random_points_def small_filler_def filler_fields)

lemma small_pixel_model_random: "pixel_model sk (small_filler RandomPoints) draws (0, 0) = Inl KeyError"
  by (simp add: pixel_model_def small_select_random small_interpolation bind_err_def
      dataset_getitem_pair_def fne_def feq_def)
     (simp add: small_filler_def filler_fields)

lemma small_select_all:
  "select_coords (small_filler AllPoints) (0, 0) draws
     = Inr (Coords (argwhere (\<lambda>x. \<not> isnan x) (small_grid NaN)))"
  by (simp add: select_coords_def small_filler_def filler_fields isnan_def)

lemma small_build_table:
  "build_table (small_filler AllPoints) (argwhere (\<lambda>x. \<not> isnan x) (small_grid NaN) @ [(0, 0)])
     = Inr small_table"
  by code_simp

lemma small_train_test:
  "get_train_test_sets small_table
     = (replicate 3 (replicate 11 (Fin 0)), [[Fin 1], [Fin 2], [Fin 3]], [replicate 11 (Fin 5)])"
  by code_simp

lemma zero_predictors_any: "any_m (replicate 3 (replicate 11 (Fin 0))) = False"
  by code_simp

text \<open>
  The three cases of \<open>get_random_points\<close>: below 50 known pixels the message; from 50 to 99
  every cell that is not the gap marker, once; from 100 on, whenever the loop ends, 101
  different cells of the array, none of which is \<open>-100\<close>.
\<close>

lemma valid_cell_not_sentinel: "valid_cell v \<Longrightarrow> \<not> feq v (Fin (- 100))"
  by (auto simp: valid_cell_def feq_def)

lemma get_random_points_below_50:
  "temp_known_pixels self < 50 \<Longrightarrow> get_random_points self draws = Inr (Message not_enough)"
  by (simp add: get_random_points_def)

lemma get_random_points_50_to_99:
  assumes "50 \<le> temp_known_pixels self" and "temp_known_pixels self < 100"
  shows "\<exists>cs. get_random_points self draws = Inr (Coords cs) \<and> distinct cs
           \<and> set cs = {(i, j). i < length (temp_gap_array self) \<and> j < length (temp_gap_array self ! i)
                        \<and> (if isnan (gap_value self) then \<not> isnan (temp_gap_array self ! i ! j)
                            else fne (temp_gap_array self ! i ! j) (gap_value self))}"
  using assms by (auto simp: get_random_points_def distinct_argwhere in_argwhere)

lemma get_random_points_100_up:
  assumes "100 \<le> temp_known_pixels self" and "get_random_points self draws = Inr sel"
  shows "\<exists>cs. sel = Coords cs \<and> distinct cs \<and> length cs = 101
           \<and> (\<forall>c\<in>set cs. fst c < length (temp_gap_array self)
                  \<and> snd c < length (temp_gap_array self ! fst c)
                  \<and> \<not> feq (temp_gap_array self ! fst c ! snd c) (Fin (- 100)))"
proof -
  from assms obtain cs where cs: "sample_loop (temp_gap_array self) 100 draws [] 0 = Inr cs"
    and sel: "sel = Coords cs"
    by (auto simp: get_random_points_def bind_err_def split: sum.splits)
  from sample_loop_invariant[OF cs] have "distinct cs" "length cs = 101"
    and sub: "set cs \<subseteq> set (argwhere valid_cell (temp_gap_array self))" by simp_all
  moreover have "fst c < length (temp_gap_array self) \<and> snd c < length (temp_gap_array self ! fst c)
                  \<and> \<not> feq (temp_gap_array self ! fst c ! snd c) (Fin (- 100))" if "c \<in> set cs" for c
  proof -
    obtain i j where c: "c = (i, j)" by (cases c)
    with that sub have "(i, j) \<in> set (argwhere valid_cell (temp_gap_array self))" by auto
    then show ?thesis by (simp add: c in_argwhere valid_cell_not_sentinel)
  qed
  ultimately show ?thesis using sel by blast
qed

text \<open>
  C5. The claim: no list returned by \<open>get_random_points\<close> has a duplicate coordinate or a
  coordinate whose cell is the gap marker, in the NaN mode as in the sentinel mode. The code
  departs from it in the NaN mode: the loop tests the cell with \<open>np.isclose(cell, np.nan)\<close>,
  which is false for every cell. On a grid of 110 cells whose only gap is the NaN at \<open>(0, 0)\<close>
  (109 known pixels), with draws that hit \<open>(0, 0)\<close> first and 100 other cells after it, the
  list returned starts with the gap coordinate \<open>(0, 0)\<close>.
\<close>

theorem random_points_returns_nan_gap:
  "process_gap_array (grid_filler NaN) (grid_with NaN)
     = Inr (with_array (grid_filler NaN) (grid_with NaN) 109, [(0, 0)])
   \<and> get_random_points (with_array (grid_filler NaN) (grid_with NaN) 109)
        ((0, 0) # take 100 draws_101)
     = Inr (Coords ((0, 0) # take 100 draws_101))
   \<and> getitem2 (grid_with NaN) 0 0 = Inr NaN"
  by code_simp

text \<open>
  C6. The claim: with at least 100 known pixels the loop ends with exactly 100 coordinates.
  The loop runs while \<open>number_iter <= iter_value\<close> with \<open>iter_value = 100\<close>, so it ends with
  101. On a grid of 110 cells with one sentinel gap (109 known pixels) and 101 draws that hit
  101 different known cells, all 101 are returned.
\<close>

theorem random_points_collects_101:
  "process_gap_array (grid_filler (Fin (- 100))) (grid_with (Fin (- 100)))
     = Inr (with_array (grid_filler (Fin (- 100))) (grid_with (Fin (- 100))) 109,
            [(0, 0)])
   \<and> get_random_points
        (with_array (grid_filler (Fin (- 100))) (grid_with (Fin (- 100))) 109)
        draws_101
     = Inr (Coords draws_101)
   \<and> length draws_101 = 101"
  by code_simp

text \<open>
  C10. The claim: the loop of \<open>get_random_points\<close> ends for every Target Matrix with at least
  100 known pixels, also with exactly 100 of them in the sentinel mode. The loop needs 101
  different acceptable cells. On a grid with ten sentinel gaps and exactly 100 other cells,
  none of them NaN, \<open>process_gap_array\<close> counts 100 known pixels and the loop is still
  running after any number of draws.
\<close>

theorem random_points_never_ends_at_100:
  "process_gap_array (grid_filler (Fin (- 100))) grid_100
     = Inr (with_array (grid_filler (Fin (- 100))) grid_100 100,
            map (\<lambda>i. (i, 10)) [0..<10])
   \<and> (\<forall>draws. get_random_points
                 (with_array (grid_filler (Fin (- 100))) grid_100 100) draws
               = Inl DrawsExhausted)"
proof -
  have p: "process_gap_array (grid_filler (Fin (- 100))) grid_100
     = Inr (with_array (grid_filler (Fin (- 100))) grid_100 100,
            map (\<lambda>i. (i, 10)) [0..<10])"
    by code_simp
  have r: "rectangular grid_100"
    by code_simp
  have n: "length (argwhere valid_cell grid_100) \<le> 100"
    by code_simp
  have "sample_loop grid_100 100 draws [] 0 = Inl DrawsExhausted" for draws
    by (rule sample_loop_stuck[OF r n]) simp_all
  then have "get_random_points
        (with_array (grid_filler (Fin (- 100))) grid_100 100) draws
      = Inl DrawsExhausted" for draws
    by (simp add: get_random_points_def with_array_def bind_err_def)
  with p show ?thesis by blast
qed

subsection \<open>\<open>pixel_model\<close> and \<open>fill_the_gaps\<close>\<close>

text \<open>
  \<open>process_gap_array\<close> returns every gap pixel of the array once, and nothing else; and every
  Gap Result that \<open>pixel_model\<close> returns carries the coordinate it was called with, so the
  results of a run in which every call returns are those of the gap indices, in their order.
\<close>

lemma gap_pixels_exact:
  "distinct (gap_pixels gv a) \<and>
   set (gap_pixels gv a) =
     {(i, j). i < length a \<and> j < length (a ! i) \<and>
              (if isnan gv then isnan (a ! i ! j) else feq (a ! i ! j) gv)}"
  by (auto simp: gap_pixels_def distinct_argwhere in_argwhere)

lemma pixel_model_coordinate:
  assumes "pixel_model sk self draws g = Inr r"
  shows "fst r = g"
proof -
  from assms obtain sel where sel: "select_coords self g draws = Inr sel"
    by (auto simp: pixel_model_def bind_err_def split: sum.splits)
  show ?thesis
  proof (cases sel)
    case (Message m)
    with assms sel show ?thesis
      by (auto simp: pixel_model_def bind_err_def split: sum.splits if_splits)
  next
    case (Coords cs)
    with assms sel show ?thesis
      by (auto simp: pixel_model_def bind_err_def split: sum.splits if_splits prod.splits)
  qed
qed

lemma mapM_err_Inr:
  "mapM_err f xs = Inr ys \<Longrightarrow> length ys = length xs \<and> (\<forall>i < length xs. f (xs ! i) = Inr (ys ! i))"
proof (induction xs arbitrary: ys)
  case Nil
  then show ?case by simp
next
  case (Cons x xs)
  from Cons.prems obtain y ys' where y: "f x = Inr y" and ys': "mapM_err f xs = Inr ys'"
    and ys: "ys = y # ys'"
    by (auto simp: bind_err_def split: sum.splits)
  from Cons.IH[OF ys'] y ys show ?case
    by (auto simp: nth_Cons split: nat.splits)
qed

lemma gap_results_coordinates:
  assumes "gap_results sk self rnd gap_indices = Inr rs"
  shows "map fst rs = gap_indices"
proof (rule nth_equalityI)
  from assms have len: "length rs = length gap_indices"
    and each: "\<And>i. i < length gap_indices
                 \<Longrightarrow> pixel_model sk self (rnd (gap_indices ! i)) (gap_indices ! i) = Inr (rs ! i)"
    by (auto simp: gap_results_def dest: mapM_err_Inr)
  show "length (map fst rs) = length gap_indices" using len by simp
  show "map fst rs ! i = gap_indices ! i" if "i < length (map fst rs)" for i
    using that len pixel_model_coordinate[OF each[of i]] by simp
qed

text \<open>
  On the message string, \<open>pixel_model\<close> returns the interpolated value in the sentinel mode,
  and raises in the NaN mode.
\<close>

lemma pixel_model_signal_sentinel:
  assumes "gap_value self = Fin (- 100)" and "select_coords self g draws = Inr (Message m)"
    and "interpolation self g = Inr p"
  shows "pixel_model sk self draws g = Inr (g, p, NotAvailable, NotAvailable)"
  using assms by (simp add: pixel_model_def bind_err_def fne_def feq_def)

lemma pixel_model_signal_nan:
  assumes "gap_value self = NaN" and "select_coords self g draws = Inr (Message m)"
  shows "\<exists>e. pixel_model sk self draws g = Inl e"
  using assms
  by (cases "interpolation self g")
     (simp_all add: pixel_model_def bind_err_def fne_def feq_def dataset_getitem_pair_def)

text \<open>
  C2. The claim: when the selector returns the message string, \<open>pixel_model\<close> interpolates and
  returns a Gap Result without raising, with the gap marker NaN as with \<open>-100\<close>. With the gap
  marker NaN the code takes the branch \<open>if self.gap_value != -100\<close> and indexes the Dataset
  \<open>self.actual_matrix\<close> with the gap coordinate, which raises. On a grid of 12 cells with one
  NaN gap and the strategy RandomPoints (11 known pixels), the selector returns the message,
  the interpolation gives 5, and \<open>pixel_model\<close> raises \<open>KeyError\<close>, whatever the trainer and
  the random draws.
\<close>

theorem pixel_model_signal_raises_in_nan_mode:
  "process_gap_array (gapfiller_on RandomPoints NaN (small_grid NaN) zero_history) (small_grid NaN)
     = Inr (small_filler RandomPoints, [(0, 0)])
   \<and> select_coords (small_filler RandomPoints) (0, 0) draws = Inr (Message not_enough)
   \<and> interpolation (small_filler RandomPoints) (0, 0) = Inr (Some (Fin 5))
   \<and> pixel_model sk (small_filler RandomPoints) draws (0, 0) = Inl KeyError"
  by (simp add: small_process small_select_random small_interpolation small_pixel_model_random)

text \<open>
  C1. The claim: in every run the Gap Results of \<open>fill_the_gaps\<close> over the indices of
  \<open>process_gap_array\<close> are one per gap pixel. In the run of C2 the array has the gap pixel
  \<open>(0, 0)\<close>; the call of \<open>pixel_model\<close> for it raises, the iterator of results yields no Gap
  Result, and \<open>fill_the_gaps\<close> raises instead of returning.
\<close>

theorem fill_the_gaps_raises_without_result:
  "process_gap_array (gapfiller_on RandomPoints NaN (small_grid NaN) zero_history) (small_grid NaN)
     = Inr (small_filler RandomPoints, [(0, 0)])
   \<and> gap_results sk (small_filler RandomPoints) rnd [(0, 0)] = Inl KeyError
   \<and> fill_the_gaps sk (small_filler RandomPoints) rnd [(0, 0)] = Inl KeyError"
  by (simp add: small_process gap_results_def fill_the_gaps_def fill_step_def
      small_pixel_model_random bind_err_def)

text \<open>
  C9. The claim: after the split \<open>pixel_model\<close> interpolates exactly when the training set has
  no rows, and calls the trainer for every training set with rows. The code tests
  \<open>not X_train.any()\<close>, which also holds for a training set whose entries are all zero. On the
  grid of C2 with the strategy AllPoints and a cube in which every predictor pixel is 0, the
  training set has three rows, and \<open>pixel_model\<close> returns the interpolated value 5 with the
  validation score \<open>"not available"\<close>, whatever the trainer.
\<close>

theorem pixel_model_interpolates_on_zero_training_rows:
  "process_gap_array (gapfiller_on AllPoints NaN (small_grid NaN) zero_history) (small_grid NaN)
     = Inr (small_filler AllPoints, [(0, 0)])
   \<and> select_coords (small_filler AllPoints) (0, 0) draws
     = Inr (Coords (argwhere (\<lambda>x. \<not> isnan x) (small_grid NaN)))
   \<and> build_table (small_filler AllPoints) (argwhere (\<lambda>x. \<not> isnan x) (small_grid NaN) @ [(0, 0)])
     = Inr small_table
   \<and> get_train_test_sets small_table
     = (replicate 3 (replicate 11 (Fin 0)), [[Fin 1], [Fin 2], [Fin 3]], [replicate 11 (Fin 5)])
   \<and> pixel_model sk (small_filler AllPoints) draws (0, 0)
     = Inr ((0, 0), Some (Fin 5), NotAvailable, NotAvailable)"
proof -
  have "pixel_model sk (small_filler AllPoints) draws (0, 0)
     = Inr ((0, 0), Some (Fin 5), NotAvailable, NotAvailable)"
    by (simp add: pixel_model_def small_select_all small_build_table small_train_test
        zero_predictors_any small_interpolation bind_err_def item_def feq_def)
       (simp add: small_filler_def filler_fields)
  then show ?thesis
    by (simp add: small_process small_select_all small_build_table small_train_test)
qed

subsection \<open>\<open>train_model\<close>\<close>

text \<open>
  In the mode Custom the validation score returned is the array that \<open>cross_val_score\<close>
  returned, as it is; a failure of \<open>cross_val_score\<close> gives the pair \<open>(None, None)\<close>.
\<close>

lemma train_model_custom:
  assumes "learning_function self = SVR" and "hyperparameters self = Custom"
    and "scale sk (X_train @ X_test) = Inr sample"
  shows "cross_val_score sk (butlast sample) (concat y_train) = Inr vs
         \<Longrightarrow> fit_predict sk (butlast sample) (concat y_train) (drop (length sample - 1) sample) = Inr p
         \<Longrightarrow> train_model sk self X_train y_train X_test = Inr (Some (p, Scores vs))"
    and "cross_val_score sk (butlast sample) (concat y_train) = Inl e
         \<Longrightarrow> train_model sk self X_train y_train X_test = Inr None"
  using assms by (simp_all add: train_model_def bind_err_def)

text \<open>
  C3. The claim: in the mode Custom the validation score is one non-negative number, the
  cross-validated mean absolute error with its sign turned, as in the grid-search modes. The
  code returns what \<open>cross_val_score\<close> returns under the scoring \<open>neg_mean_absolute_error\<close>:
  the array of the scores of the three folds, none of them positive. With fold scores
  \<open>-1, -2, -3\<close> the mode Custom returns that array, where a grid search with the best score
  \<open>-2\<close> returns 2.
\<close>

theorem train_model_custom_returns_fold_scores:
  "train_model a_sklearn (small_filler AllPoints)
       [[Fin 1], [Fin 2], [Fin 3]] [[Fin 1], [Fin 2], [Fin 4]] [[Fin 5]]
     = Inr (Some ([Fin 9], Scores [Fin (- 1), Fin (- 2), Fin (- 3)]))
   \<and> train_model a_sklearn ((small_filler AllPoints)\<lparr>hyperparameters := FullGridSearch\<rparr>)
       [[Fin 1], [Fin 2], [Fin 3]] [[Fin 1], [Fin 2], [Fin 4]] [[Fin 5]]
     = Inr (Some ([Fin 9], Score (Fin 2)))"
  by code_simp

subsection \<open>The selection loop of \<open>get_extra_matrix_points\<close>\<close>

text \<open>
  The loop extracts the first index of a minimal distance and replaces that distance by
  \<open>np.inf\<close>. Its result is related to the stable insertion sort \<open>sort_key\<close> of the library:
  the head of a sorted list is the first minimal element, and the rest is the sorted list of
  the others.
\<close>

lemma select_nearest_indices:
  "select_nearest k coords ds sel = sel @ map (\<lambda>i. coords ! i) (select_indices k ds)"
  by (induction k arbitrary: ds sel) (simp_all add: Let_def)

lemma arg_min_list_filter:
  assumes "\<forall>x\<in>set xs. \<forall>y\<in>set xs. \<not> P x \<longrightarrow> P y \<longrightarrow> f y < f x" and "filter P xs \<noteq> []"
  shows "arg_min_list f xs = arg_min_list f (filter P xs)"
  using assms
proof (induction f xs rule: arg_min_list.induct)
  case (1 f x)
  then show ?case by (simp split: if_splits)
next
  case (2 f x y zs)
  define m where "m = arg_min_list f (y # zs)"
  define ys where "ys = filter P (y # zs)"
  have lhs: "arg_min_list f (x # y # zs) = (if f x \<le> f m then x else m)"
    by (simp add: Let_def m_def)
  have flt: "filter P (x # y # zs) = (if P x then x # ys else ys)"
    unfolding ys_def by (rule filter.simps(2))
  have min: "m \<in> set (y # zs)" unfolding m_def by (rule arg_min_list_in) simp
  have x_in: "x \<in> set (x # y # zs)" and m_in: "m \<in> set (x # y # zs)" using min by simp_all
  have far: "\<not> P u \<Longrightarrow> P v \<Longrightarrow> u \<in> set (x # y # zs) \<Longrightarrow> v \<in> set (x # y # zs) \<Longrightarrow> f v < f u" for u v
    using "2.prems"(1) by blast
  show ?case
  proof (cases "ys = []")
    case True
    then have "\<not> P m" using min unfolding ys_def filter_empty_conv by blast
    moreover from True "2.prems"(2) flt have px: "P x" by (cases "P x") simp_all
    ultimately have "f x < f m" using far x_in m_in by blast
    then have "f x \<le> f m" by (rule less_imp_le)
    then have "arg_min_list f (x # y # zs) = x" using lhs by simp
    moreover have "arg_min_list f (filter P (x # y # zs)) = x" using flt px True by simp
    ultimately show ?thesis by simp
  next
    case False
    have sub: "\<forall>u\<in>set (y # zs). \<forall>v\<in>set (y # zs). \<not> P u \<longrightarrow> P v \<longrightarrow> f v < f u"
      using far by simp
    have "filter P (y # zs) \<noteq> []" using False unfolding ys_def .
    with sub have IH: "m = arg_min_list f ys" unfolding m_def ys_def by (rule "2.IH")
    obtain a as where as: "ys = a # as" using False by (cases ys) auto
    have "arg_min_list f ys \<in> set ys" using False by (rule arg_min_list_in)
    then have "m \<in> set (filter P (y # zs))" using IH unfolding ys_def by simp
    then have pm: "P m" unfolding set_filter by blast
    show ?thesis
    proof (cases "P x")
      case True
      then have "arg_min_list f (filter P (x # y # zs)) = arg_min_list f (x # a # as)"
        using flt as by simp
      also have "\<dots> = (if f x \<le> f (arg_min_list f (a # as)) then x else arg_min_list f (a # as))"
        by (simp add: Let_def)
      also have "\<dots> = (if f x \<le> f m then x else m)" using IH as by simp
      finally show ?thesis using lhs by simp
    next
      case False
      then have "f m < f x" using pm far x_in m_in by blast
      then have "\<not> f x \<le> f m" by simp
      then have "arg_min_list f (x # y # zs) = m" using lhs by simp
      moreover have "arg_min_list f (filter P (x # y # zs)) = m" using flt False IH by simp
      ultimately show ?thesis by simp
    qed
  qed
next
  case (3 f)
  then show ?case by simp
qed

lemma sort_key_min_first:
  "xs \<noteq> [] \<Longrightarrow> sort_key f xs = arg_min_list f xs # sort_key f (remove1 (arg_min_list f xs) xs)"
proof (induction f xs rule: arg_min_list.induct)
  case (1 f x)
  then show ?case by simp
next
  case (2 f x y zs)
  define m where "m = arg_min_list f (y # zs)"
  define R where "R = sort_key f (remove1 m (y # zs))"
  have IH: "sort_key f (y # zs) = m # R"
    unfolding m_def R_def by (rule "2.IH") simp
  have "sort_key f (x # y # zs) = insort_key f x (sort_key f (y # zs))"
    by (rule sort_key_simps(2))
  then have step: "sort_key f (x # y # zs) = insort_key f x (m # R)"
    by (simp only: IH)
  show ?case
  proof (cases "f x \<le> f m")
    case True
    then have g1: "arg_min_list f (x # y # zs) = x" by (simp add: Let_def m_def)
    have rmx: "remove1 x (x # y # zs) = y # zs" by simp
    have "insort_key f x (m # R) = x # m # R" using True by simp
    with step have "sort_key f (x # y # zs) = x # m # R" by (simp only:)
    then show ?thesis unfolding g1 rmx IH .
  next
    case False
    then have g1: "arg_min_list f (x # y # zs) = m" by (simp add: Let_def m_def)
    from False have ne: "x \<noteq> m" by auto
    have rm: "remove1 m (x # y # zs) = x # remove1 m (y # zs)" using ne by simp
    have "insort_key f x (m # R) = m # insort_key f x R" using False by simp
    with step have l: "sort_key f (x # y # zs) = m # insort_key f x R" by (simp only:)
    have r: "sort_key f (x # remove1 m (y # zs)) = insort_key f x R"
      unfolding R_def by (rule sort_key_simps(2))
    show ?thesis unfolding g1 rm r by (rule l)
  qed
next
  case (3 f)
  then show ?case by simp
qed

lemma insort_key_cong_le:
  "\<forall>y\<in>set ys. (f x \<le> f y) = (g x \<le> g y) \<Longrightarrow> insort_key f x ys = insort_key g x ys"
  by (induction ys) simp_all

lemma sort_key_cong_le:
  "\<forall>x\<in>set xs. \<forall>y\<in>set xs. (f x \<le> f y) = (g x \<le> g y) \<Longrightarrow> sort_key f xs = sort_key g xs"
proof (induction xs)
  case Nil
  then show ?case by simp
next
  case (Cons x xs)
  then have "sort_key f xs = sort_key g xs" by simp
  moreover have "insort_key f x (sort_key g xs) = insort_key g x (sort_key g xs)"
    using Cons.prems by (intro insort_key_cong_le) simp
  ultimately show ?case by simp
qed

lemma insort_key_map:
  "map f (insort_key (\<lambda>x. h (f x)) x ys) = insort_key h (f x) (map f ys)"
  by (induction ys) simp_all

lemma sort_key_map: "map f (sort_key (\<lambda>x. h (f x)) xs) = sort_key h (map f xs)"
  by (induction xs) (simp_all add: insort_key_map)


lemma distinct_live: "distinct (live ds)"
  by (simp add: live_def)

lemma in_live: "i \<in> set (live ds) \<longleftrightarrow> i < length ds \<and> ds ! i \<noteq> \<infinity>"
  by (auto simp: live_def)

lemma live_update:
  assumes "i \<in> set (live ds)"
  shows "live (ds[i := \<infinity>]) = remove1 i (live ds)"
proof -
  have "remove1 i (live ds) = filter (\<lambda>j. i \<noteq> j) (live ds)"
    using distinct_live by (simp add: distinct_remove1_removeAll removeAll_filter_not_eq)
  also have "\<dots> = filter (\<lambda>j. i \<noteq> j \<and> ds ! j \<noteq> \<infinity>) [0..<length ds]"
    by (simp add: live_def conj_commute)
  also have "\<dots> = filter (\<lambda>j. ds[i := \<infinity>] ! j \<noteq> \<infinity>) [0..<length ds]"
  proof (rule filter_cong)
    fix j assume "j \<in> set [0..<length ds]"
    moreover have "i < length ds" using assms by (simp add: in_live)
    ultimately show "(i \<noteq> j \<and> ds ! j \<noteq> \<infinity>) = (ds[i := \<infinity>] ! j \<noteq> \<infinity>)"
      by (cases "i = j") simp_all
  qed simp
  finally show ?thesis by (simp add: live_def)
qed

lemma argmin_live:
  assumes "live ds \<noteq> []"
  shows "argmin ds = arg_min_list (\<lambda>i. ds ! i) (live ds)"
  unfolding argmin_def live_def
proof (rule arg_min_list_filter)
  show "\<forall>x\<in>set [0..<length ds]. \<forall>y\<in>set [0..<length ds].
          \<not> ds ! x \<noteq> \<infinity> \<longrightarrow> ds ! y \<noteq> \<infinity> \<longrightarrow> ds ! y < ds ! x"
    by auto
  show "filter (\<lambda>i. ds ! i \<noteq> \<infinity>) [0..<length ds] \<noteq> []"
    using assms by (simp add: live_def)
qed

lemma select_indices_sorted:
  "k \<le> length (live ds) \<Longrightarrow> select_indices k ds = take k (sort_key (\<lambda>i. ds ! i) (live ds))"
proof (induction k arbitrary: ds)
  case 0
  then show ?case by simp
next
  case (Suc k)
  define i where "i = argmin ds"
  define ds' where "ds' = ds[i := \<infinity>]"
  from Suc.prems have ne: "live ds \<noteq> []" by auto
  have i_min: "i = arg_min_list (\<lambda>i. ds ! i) (live ds)"
    unfolding i_def using ne by (rule argmin_live)
  then have i_in: "i \<in> set (live ds)" using ne by (simp add: arg_min_list_in)
  have live': "live ds' = remove1 i (live ds)"
    unfolding ds'_def using i_in by (rule live_update)
  have head: "sort_key (\<lambda>i. ds ! i) (live ds) = i # sort_key (\<lambda>i. ds ! i) (live ds')"
    unfolding live' i_min using ne by (rule sort_key_min_first)
  have "set (live ds') = set (live ds) - {i}"
    unfolding live' using distinct_live[of ds] by simp
  then have "\<forall>x\<in>set (live ds'). ds' ! x = ds ! x"
    unfolding ds'_def by simp
  then have same: "sort_key (\<lambda>i. ds' ! i) (live ds') = sort_key (\<lambda>i. ds ! i) (live ds')"
    by (intro sort_key_cong_le) simp
  have "k \<le> length (live ds')"
    using Suc.prems i_in unfolding live' by (simp add: length_remove1)
  then have "select_indices k ds' = take k (sort_key (\<lambda>i. ds' ! i) (live ds'))"
    by (rule Suc.IH)
  then have rest: "select_indices k ds' = take k (sort_key (\<lambda>i. ds ! i) (live ds'))"
    by (simp only: same)
  have "select_indices (Suc k) ds = i # select_indices k ds'"
    by (simp add: i_def ds'_def)
  then show ?case by (simp only: rest head take_Suc_Cons)
qed

lemma live_cdist: "live (cdist g coords) = [0..<length coords]"
  by (simp add: live_def cdist_def filter_id_conv)

lemma select_nearest_sorted:
  assumes "k \<le> length coords"
  shows "select_nearest k coords (cdist g coords) [] = take k (sort_key (sqdist g) coords)"
proof -
  let ?n = "length coords"
  have "select_indices k (cdist g coords)
          = take k (sort_key (\<lambda>i. cdist g coords ! i) [0..<?n])"
    using assms select_indices_sorted[of k "cdist g coords"] by (simp add: live_cdist)
  also have "sort_key (\<lambda>i. cdist g coords ! i) [0..<?n]
          = sort_key (\<lambda>i. sqdist g (coords ! i)) [0..<?n]"
    by (rule sort_key_cong_le) (simp add: cdist_def)
  finally have "select_nearest k coords (cdist g coords) []
          = take k (map (\<lambda>i. coords ! i) (sort_key (\<lambda>i. sqdist g (coords ! i)) [0..<?n]))"
    by (simp add: select_nearest_indices take_map)
  also have "map (\<lambda>i. coords ! i) (sort_key (\<lambda>i. sqdist g (coords ! i)) [0..<?n])
          = sort_key (sqdist g) (map (\<lambda>i. coords ! i) [0..<?n])"
    by (rule sort_key_map)
  also have "map (\<lambda>i. coords ! i) [0..<?n] = coords"
    by (rule map_nth)
  finally show ?thesis .
qed

text \<open>
  C7. With at least 40 candidates of the class of the gap pixel, \<open>get_extra_matrix_points\<close>
  returns 41 coordinates: the first 40 candidates of the stable sort of the candidates by
  their distance to the gap pixel (\<open>sort_key\<close> keeps candidates of equal distance in the order
  of the array), so the 40 nearest in non-decreasing order of distance, and the gap pixel
  itself last.
\<close>

theorem lcc_selects_40_nearest:
  assumes "lcc_candidates self g = Inr coords" and "40 \<le> length coords"
  shows "get_extra_matrix_points self g draws
           = Inr (Coords (take 40 (sort_key (sqdist g) coords) @ [g]))
         \<and> length (take 40 (sort_key (sqdist g) coords) @ [g]) = 41
         \<and> sorted (map (sqdist g) (take 40 (sort_key (sqdist g) coords)))"
proof -
  have "nearest_with_self g coords = take 40 (sort_key (sqdist g) coords) @ [g]"
    using assms(2) by (simp add: nearest_with_self_def select_nearest_sorted min_def)
  moreover have "sorted (map (sqdist g) (take 40 (sort_key (sqdist g) coords)))"
    by (simp add: take_map[symmetric] sorted_wrt_take)
  ultimately show ?thesis
    using assms by (simp add: get_extra_matrix_points_def bind_err_def)
qed

theorem lcc_selects_40_nearest_witness:
  "lcc_candidates lcc_filler (3, 3) = Inr lcc_cands \<and> 40 \<le> length lcc_cands
   \<and> get_extra_matrix_points lcc_filler (3, 3) []
       = Inr (Coords (take 40 (sort_key (sqdist (3, 3)) lcc_cands) @ [(3, 3)]))
   \<and> take 5 (sort_key (sqdist (3, 3)) lcc_cands) = [(2, 3), (3, 2), (3, 4), (4, 3), (2, 2)]"
proof -
  have h1: "lcc_candidates lcc_filler (3, 3) = Inr lcc_cands"
    by code_simp
  have h2: "40 \<le> length lcc_cands"
    by code_simp
  have h3: "take 5 (sort_key (sqdist (3, 3)) lcc_cands) = [(2, 3), (3, 2), (3, 4), (4, 3), (2, 2)]"
    by code_simp
  from lcc_selects_40_nearest[OF h1 h2, of "[]"] h1 h2 h3 show ?thesis
    by simp
qed

subsection \<open>\<open>interpolation\<close>\<close>

text \<open>
  C4, as stated: the interpolation gives no result exactly when the array has fewer than 10
  usable known values. The test of the code is \<open>count <= 10\<close>: in the sentinel mode, on a grid
  with two gaps and exactly ten known values and no NaN, the interpolation gives no result.
\<close>

theorem interpolation_none_with_ten_known:
  "\<not> ((interpolation ten_known_filler (0, 0) = Inr None)
        = (usable_known (gap_value ten_known_filler) (temp_gap_array ten_known_filler) < 10))"
  by code_simp

lemma size_m_concat: "size_m a = length (concat a)"
  by (simp add: size_m_def length_concat)

lemma count_where_compl: "count_where P a + count_where (\<lambda>x. \<not> P x) a = size_m a"
  by (simp add: count_where_def size_m_concat sum_length_filter_compl)

lemma count_where_zero: "count_where P a = 0 \<longleftrightarrow> (\<forall>r\<in>set a. \<forall>x\<in>set r. \<not> P x)"
  by (auto simp: count_where_def filter_empty_conv)

lemma count_where_cong:
  "(\<And>r x. r \<in> set a \<Longrightarrow> x \<in> set r \<Longrightarrow> P x = Q x) \<Longrightarrow> count_where P a = count_where Q a"
  unfolding count_where_def by (rule arg_cong[where f = length], rule filter_cong) auto

lemma interpolation_count_sentinel:
  assumes "count_where isnan a = 0"
  shows "interpolation_count a = int (usable_known (Fin (- 100)) a)"
proof -
  have "usable_known (Fin (- 100)) a = count_where (\<lambda>x. \<not> feq x (Fin (- 100))) a"
    unfolding usable_known_def using assms
    by (intro count_where_cong) (auto simp: count_where_zero isnan_def)
  moreover have "count_where (\<lambda>x. feq x (Fin (- 100))) a + count_where (\<lambda>x. \<not> feq x (Fin (- 100))) a = size_m a"
    by (rule count_where_compl)
  ultimately show ?thesis using assms by (simp add: interpolation_count_def)
qed

lemma in_known_scatter:
  "((i, j), v) \<in> set (known_scatter m) \<longleftrightarrow> i < length m \<and> j < length (m ! i) \<and> v = m ! i ! j \<and> \<not> isnan v"
  by (auto simp: known_scatter_def)

lemma count_where_pos:
  assumes "0 < count_where P a"
  shows "\<exists>i j. i < length a \<and> j < length (a ! i) \<and> P (a ! i ! j)"
proof -
  from assms obtain r x where "r \<in> set a" "x \<in> set r" "P x"
    using count_where_zero[of P a] by auto
  then obtain i j where "i < length a" "a ! i = r" "j < length r" "r ! j = x"
    by (auto simp: in_set_conv_nth)
  with \<open>P x\<close> show ?thesis by auto
qed

lemma griddata_nearest_minimal:
  assumes "known \<noteq> []"
  shows "\<exists>p\<in>set known. griddata_nearest known g = Inr (snd p)
           \<and> (\<forall>q\<in>set known. sqdist g (fst p) \<le> sqdist g (fst q))"
proof -
  let ?f = "\<lambda>p. sqdist g (fst p)"
  let ?p = "arg_min_list ?f known"
  have "?p \<in> set known" using assms by (rule arg_min_list_in)
  moreover have "?f ?p = Min (?f ` set known)" using assms by (rule f_arg_min_list_f)
  then have "\<forall>q\<in>set known. ?f ?p \<le> ?f q" by simp
  ultimately show ?thesis using assms by (auto simp: griddata_nearest_def)
qed

text \<open>
  C4, amended. In the sentinel mode, on an array without NaN, the interpolation gives no
  result exactly when the array has at most 10 usable known values; with more, it returns the
  value of a cell that is no gap and that no other such cell is nearer to the gap coordinate
  than.
\<close>

theorem interpolation_sentinel_without_nan:
  assumes "gap_value self = Fin (- 100)" and "count_where isnan (temp_gap_array self) = 0"
  shows "(interpolation self g = Inr None)
           = (usable_known (gap_value self) (temp_gap_array self) \<le> 10)
         \<and> (10 < usable_known (gap_value self) (temp_gap_array self) \<longrightarrow>
              (\<exists>i j. i < length (temp_gap_array self) \<and> j < length (temp_gap_array self ! i)
                 \<and> \<not> feq (temp_gap_array self ! i ! j) (gap_value self)
                 \<and> interpolation self g = Inr (Some (temp_gap_array self ! i ! j))
                 \<and> (\<forall>i' j'. i' < length (temp_gap_array self) \<and> j' < length (temp_gap_array self ! i')
                        \<and> \<not> feq (temp_gap_array self ! i' ! j') (gap_value self)
                      \<longrightarrow> sqdist g (i, j) \<le> sqdist g (i', j'))))"
proof -
  let ?a = "temp_gap_array self"
  let ?m = "mask_gaps (Fin (- 100)) ?a"
  let ?known = "known_scatter ?m"
  have cnt: "interpolation_count ?a = int (usable_known (Fin (- 100)) ?a)"
    using assms(2) by (rule interpolation_count_sentinel)
  have nonan: "\<not> isnan (?a ! i ! j)" if "i < length ?a" "j < length (?a ! i)" for i j
  proof -
    have "?a ! i \<in> set ?a" and "?a ! i ! j \<in> set (?a ! i)" using that by simp_all
    with assms(2) show ?thesis unfolding count_where_zero by blast
  qed
  have mem: "((i, j), v) \<in> set ?known \<longleftrightarrow>
      i < length ?a \<and> j < length (?a ! i) \<and> v = ?a ! i ! j \<and> \<not> feq (?a ! i ! j) (Fin (- 100))" for i j v
    using nonan[of i j] by (auto simp: in_known_scatter mask_gaps_def isnan_def)
  have big: "\<exists>i j. i < length ?a \<and> j < length (?a ! i)
                 \<and> \<not> feq (?a ! i ! j) (Fin (- 100))
                 \<and> interpolation self g = Inr (Some (?a ! i ! j))
                 \<and> (\<forall>i' j'. i' < length ?a \<and> j' < length (?a ! i')
                        \<and> \<not> feq (?a ! i' ! j') (Fin (- 100))
                      \<longrightarrow> sqdist g (i, j) \<le> sqdist g (i', j'))"
    if gt: "10 < usable_known (Fin (- 100)) ?a"
  proof -
    from gt have "0 < count_where (\<lambda>x. \<not> isnan (if feq x (Fin (- 100)) then NaN else x)) ?a"
      by (simp add: usable_known_def)
    then obtain i0 j0 where "i0 < length ?a" "j0 < length (?a ! i0)"
      "\<not> isnan (if feq (?a ! i0 ! j0) (Fin (- 100)) then NaN else ?a ! i0 ! j0)"
      using count_where_pos by blast
    then have "((i0, j0), ?a ! i0 ! j0) \<in> set ?known"
      by (auto simp: mem isnan_def split: if_splits)
    then have "?known \<noteq> []" by auto
    then obtain p where p: "p \<in> set ?known" "griddata_nearest ?known g = Inr (snd p)"
      "\<forall>q\<in>set ?known. sqdist g (fst p) \<le> sqdist g (fst q)"
      using griddata_nearest_minimal by blast
    obtain i j v where pv: "p = ((i, j), v)" by (cases p) auto
    from p(1) pv have in_a: "i < length ?a" "j < length (?a ! i)" "v = ?a ! i ! j"
      "\<not> feq (?a ! i ! j) (Fin (- 100))" by (simp_all add: mem)
    have "interpolation self g = Inr (Some (?a ! i ! j))"
      using gt cnt p(2) pv in_a assms(1) by (simp add: interpolation_def bind_err_def)
    moreover have "sqdist g (i, j) \<le> sqdist g (i', j')"
      if "i' < length ?a \<and> j' < length (?a ! i') \<and> \<not> feq (?a ! i' ! j') (Fin (- 100))" for i' j'
    proof -
      from that have "((i', j'), ?a ! i' ! j') \<in> set ?known" by (simp add: mem)
      with p(3) pv show ?thesis by fastforce
    qed
    ultimately show ?thesis using in_a by blast
  qed
  have none: "(interpolation self g = Inr None) = (usable_known (Fin (- 100)) ?a \<le> 10)"
  proof (cases "usable_known (Fin (- 100)) ?a \<le> 10")
    case True
    then show ?thesis using cnt by (simp add: interpolation_def)
  next
    case False
    then have "10 < usable_known (Fin (- 100)) ?a" by simp
    from big[OF this] False show ?thesis by auto
  qed
  show ?thesis using none big by (simp add: assms(1))
qed

theorem interpolation_sentinel_without_nan_witness:
  "gap_value eleven_known_filler = Fin (- 100)
   \<and> count_where isnan (temp_gap_array eleven_known_filler) = 0
   \<and> 10 < usable_known (gap_value eleven_known_filler) (temp_gap_array eleven_known_filler)
   \<and> interpolation eleven_known_filler (0, 0) \<noteq> Inr None
   \<and> interpolation eleven_known_filler (0, 0) = Inr (Some (Fin 5))"
proof -
  have h1: "gap_value eleven_known_filler = Fin (- 100)"
    by code_simp
  have h2: "count_where isnan (temp_gap_array eleven_known_filler) = 0"
    by code_simp
  have h3: "usable_known (gap_value eleven_known_filler) (temp_gap_array eleven_known_filler) = 11"
    by code_simp
  have h4: "interpolation eleven_known_filler (0, 0) = Inr (Some (Fin 5))"
    by code_simp
  from interpolation_sentinel_without_nan[OF h1 h2, of "(0, 0)"] h3
  have "interpolation eleven_known_filler (0, 0) \<noteq> Inr None"
    by simp
  with h1 h2 h3 h4 show ?thesis
    by simp
qed

subsection \<open>The feature table\<close>

text \<open>
  C8, as stated: after building and preprocessing, no row is all missing, no column has a
  missing entry in the last row, and the columns are labelled \<open>'0'..'n-1'\<close>. Rows are dropped
  before columns, and the last column, the gap pixel's own, is exempt from the column drop. For
  the gap \<open>(0, 2)\<close> of the one-row matrix \<open>1, NaN, -100\<close> the predictors are \<open>(0, 0)\<close> and
  \<open>(0, 1)\<close>; the column of \<open>(0, 1)\<close> is dropped, which leaves the first historical row all
  missing, and the last entry of the last row is missing.
\<close>

theorem feature_table_keeps_missing_row_and_entry:
  "select_coords cloud_filler (0, 2) [] = Inr (Coords [(0, 0), (0, 1)])
   \<and> build_table cloud_filler ([(0, 0), (0, 1)] @ [(0, 2)]) = Inr cloud_table
   \<and> list_all isnan (cells cloud_table ! 0)
   \<and> isnan (last (last (cells cloud_table)))"
  by code_simp

lemma zip_filter_fst:
  "length cols = length r \<Longrightarrow>
   zip (filter P cols) (map snd (filter (\<lambda>(c, x). P c) (zip cols r))) = filter (\<lambda>(c, x). P c) (zip cols r)"
  by (induction cols r rule: list_induct2) simp_all

lemma length_filter_zip:
  "length cols = length r \<Longrightarrow> length (filter (\<lambda>(c, x). P c) (zip cols r)) = length (filter P cols)"
  by (induction cols r rule: list_induct2) simp_all

lemma without_columns_length:
  "length r = length cols \<Longrightarrow> length (without_columns L cols r) = length (filter (\<lambda>c. c \<notin> L) cols)"
  by (simp add: without_columns_def length_filter_zip)

lemma without_columns_twice:
  assumes "length r = length cols"
  shows "without_columns M (filter (\<lambda>c. c \<noteq> l) cols) (without_columns {l} cols r)
           = without_columns (insert l M) cols r"
proof -
  have "zip (filter (\<lambda>c. c \<noteq> l) cols) (without_columns {l} cols r)
          = filter (\<lambda>(c, x). c \<noteq> l) (zip cols r)"
    using assms zip_filter_fst[of cols r "\<lambda>c. c \<noteq> l"] by (simp add: without_columns_def)
  then show ?thesis
    by (simp add: without_columns_def case_prod_unfold conj_commute)
qed

lemma without_columns_empty: "length r = length cols \<Longrightarrow> without_columns {} cols r = r"
  by (simp add: without_columns_def)

lemma drop_column_eq:
  "l \<in> set (columns df) \<Longrightarrow>
   drop_column l df = Inr (df\<lparr>columns := filter (\<lambda>c. c \<noteq> l) (columns df),
                               cells := map (without_columns {l} (columns df)) (cells df)\<rparr>)"
  by (simp add: drop_column_def without_columns_def)

lemma drop_columns_fold:
  "well_formed df \<Longrightarrow> set ls \<subseteq> set (columns df) \<Longrightarrow> distinct ls \<Longrightarrow>
   fold_err drop_column ls df
     = Inr (df\<lparr>columns := filter (\<lambda>c. c \<notin> set ls) (columns df),
               cells := map (without_columns (set ls) (columns df)) (cells df)\<rparr>)"
proof (induction ls arbitrary: df)
  case Nil
  then show ?case by (simp add: well_formed_def without_columns_empty map_idI)
next
  case (Cons l ls)
  define df1 where "df1 = df\<lparr>columns := filter (\<lambda>c. c \<noteq> l) (columns df),
                               cells := map (without_columns {l} (columns df)) (cells df)\<rparr>"
  have d: "drop_column l df = Inr df1"
    unfolding df1_def using Cons.prems(2) by (intro drop_column_eq) simp
  have wf1: "well_formed df1"
    using Cons.prems(1) by (auto simp: well_formed_def df1_def without_columns_length)
  have sub1: "set ls \<subseteq> set (columns df1)"
    using Cons.prems(2,3) by (auto simp: df1_def)
  have dist1: "distinct ls" using Cons.prems(3) by simp
  have cols: "filter (\<lambda>c. c \<notin> set ls) (columns df1) = filter (\<lambda>c. c \<notin> set (l # ls)) (columns df)"
    by (simp add: df1_def conj_commute)
  have rows: "map (without_columns (set ls) (columns df1)) (cells df1)
                = map (without_columns (set (l # ls)) (columns df)) (cells df)"
    using Cons.prems(1) by (simp add: df1_def well_formed_def without_columns_twice)
  have "fold_err drop_column (l # ls) df = fold_err drop_column ls df1"
    by (simp add: d bind_err_def)
  also have "\<dots> = Inr (df1\<lparr>columns := filter (\<lambda>c. c \<notin> set ls) (columns df1),
               cells := map (without_columns (set ls) (columns df1)) (cells df1)\<rparr>)"
    using wf1 sub1 dist1 by (rule Cons.IH)
  finally show ?case unfolding cols rows by (simp add: df1_def)
qed

lemma fold_err_map: "fold_err (\<lambda>i. f (g i)) xs s = fold_err f (map g xs) s"
  by (induction xs arbitrary: s) (simp_all add: bind_err_def split: sum.splits)


lemma create_dataframe_shape:
  assumes "create_dataframe self coords = Inr df"
  shows "columns df = map IntLabel [0..<length coords]" and "well_formed df"
proof -
  from assms obtain hist target where
    hist: "mapM_err (\<lambda>t. mapM_err (\<lambda>(i, j). getitem2 t i j) coords) (training_data self) = Inr hist"
    and target: "mapM_err (\<lambda>(i, j). getitem2 (temp_gap_array self) i j) coords = Inr target"
    and df: "df = \<lparr>columns = map IntLabel [0..<length coords], cells = hist @ [target]\<rparr>"
    by (auto simp: create_dataframe_def bind_err_def split: sum.splits)
  show "columns df = map IntLabel [0..<length coords]" by (simp add: df)
  have "length target = length coords" using mapM_err_Inr[OF target] by simp
  moreover have "length r = length coords" if "r \<in> set hist" for r
  proof -
    from that obtain k where k: "k < length hist" "hist ! k = r" by (auto simp: in_set_conv_nth)
    with mapM_err_Inr[OF hist]
    have "mapM_err (\<lambda>(i, j). getitem2 (training_data self ! k) i j) coords = Inr r" by auto
    from mapM_err_Inr[OF this] show ?thesis by simp
  qed
  ultimately show "well_formed df" by (auto simp: well_formed_def df)
qed

lemma cleaned_shape:
  assumes "well_formed df"
  shows "well_formed (dropna_all (replace_df old new df))"
    and "columns (dropna_all (replace_df old new df)) = columns df"
  using assms by (auto simp: well_formed_def dropna_all_def replace_df_def)

lemma last_row_of_eq:
  "last_row_of df = (if cells df = [] then [] else butlast (last (cells df)))"
  by (simp add: last_row_of_def split: list.splits)

lemma preprocess_dataframe_result:
  assumes cols: "columns D = map IntLabel [0..<n]" and wf: "well_formed D"
  defines "L \<equiv> IntLabel ` {i. i < length (last_row_of D) \<and> isnan (last_row_of D ! i)}"
  shows "\<exists>T. preprocess_dataframe D = Inr T
           \<and> columns T = filter (\<lambda>c. c \<notin> L) (columns D)
           \<and> cells T = map (without_columns L (columns D)) (cells D)"
proof -
  define idx where "idx = filter (\<lambda>i. isnan (last_row_of D ! i)) [0..<length (last_row_of D)]"
  have L: "L = set (map IntLabel idx)" by (auto simp: L_def idx_def)
  show ?thesis
  proof (cases "idx = []")
    case True
    then have "L = {}" using L by simp
    moreover have "map (without_columns {} (columns D)) (cells D) = cells D"
      using wf by (simp add: well_formed_def without_columns_empty map_idI)
    moreover have "preprocess_dataframe D = Inr D"
      using True by (simp add: preprocess_dataframe_def Let_def idx_def)
    ultimately show ?thesis by simp
  next
    case False
    have len: "length (last_row_of D) \<le> n - 1"
      using wf cols by (auto simp: last_row_of_eq well_formed_def)
    have sub: "set (map IntLabel idx) \<subseteq> set (columns D)"
      using len by (auto simp: idx_def cols)
    have dist: "distinct (map IntLabel idx)"
      by (simp add: idx_def distinct_map inj_on_def)
    define T where "T = D\<lparr>columns := filter (\<lambda>c. c \<notin> L) (columns D),
                           cells := map (without_columns L (columns D)) (cells D)\<rparr>"
    have "fold_err (\<lambda>i df. drop_column (IntLabel i) df) idx D = fold_err drop_column (map IntLabel idx) D"
      by (rule fold_err_map)
    also have "\<dots> = Inr T"
      unfolding T_def L using wf sub dist by (rule drop_columns_fold)
    finally have "preprocess_dataframe D = Inr T"
      using False by (simp add: preprocess_dataframe_def Let_def idx_def[symmetric] bind_err_def set_axis_def)
    then show ?thesis by (simp add: T_def)
  qed
qed

lemma without_columns_butlast:
  assumes "length r = length cols" and "cols \<noteq> []" and "last cols \<notin> L"
  shows "butlast (without_columns L cols r) = without_columns L (butlast cols) (butlast r)"
proof -
  from assms have r: "r \<noteq> []" by auto
  have "zip cols r = zip (butlast cols @ [last cols]) (butlast r @ [last r])"
    using assms(2) r by simp
  also have "\<dots> = zip (butlast cols) (butlast r) @ [(last cols, last r)]"
    using assms(1) by (subst zip_append) simp_all
  finally show ?thesis using assms(3) by (simp add: without_columns_def)
qed

lemma last_row_clean:
  assumes cols: "columns D = map IntLabel [0..<n]" and wf: "well_formed D"
    and T: "columns T = filter (\<lambda>c. c \<notin> L) (columns D)"
           "cells T = map (without_columns L (columns D)) (cells D)"
    and L: "L = IntLabel ` {i. i < length (last_row_of D) \<and> isnan (last_row_of D ! i)}"
  shows "\<forall>x\<in>set (last_row_of T). \<not> isnan x"
proof (cases "cells D = [] \<or> n = 0")
  case True
  then show ?thesis
  proof
    assume "cells D = []"
    then show ?thesis using T by (simp add: last_row_of_eq)
  next
    assume "n = 0"
    then have "\<forall>r\<in>set (cells T). r = []"
      using T cols by (auto simp: without_columns_def)
    then show ?thesis
      by (cases "cells T" rule: rev_cases) (auto simp: last_row_of_eq)
  qed
next
  case False
  then have ne: "cells D \<noteq> []" and n: "0 < n" by simp_all
  define r where "r = last (cells D)"
  have lr: "length r = n" using wf ne cols by (simp add: r_def well_formed_def)
  have lrD: "last_row_of D = butlast r"
    using ne by (simp add: last_row_of_eq r_def)
  have lastc: "last (columns D) = IntLabel (n - 1)"
    using n cols by (simp add: last_map)
  have "IntLabel (n - 1) \<notin> L" using lr by (auto simp: L lrD)
  then have keep: "last (columns D) \<notin> L" using lastc by simp
  have "last_row_of T = butlast (without_columns L (columns D) r)"
    using ne T(2) by (simp add: last_row_of_eq r_def last_map)
  also have "\<dots> = without_columns L (butlast (columns D)) (butlast r)"
    using lr cols n keep by (intro without_columns_butlast) auto
  finally have eq: "last_row_of T = without_columns L (butlast (columns D)) (butlast r)" .
  show ?thesis
  proof
    fix x assume "x \<in> set (last_row_of T)"
    then obtain c where cx: "(c, x) \<in> set (zip (butlast (columns D)) (butlast r))" and c: "c \<notin> L"
      unfolding eq without_columns_def by auto
    then obtain i where i: "i < n - 1" "c = butlast (columns D) ! i" "x = butlast r ! i"
      using lr cols by (auto simp: in_set_zip)
    then have "c = IntLabel i" using cols by (simp add: nth_butlast)
    with c i(1) lr have "\<not> isnan (butlast r ! i)" by (auto simp: L lrD)
    then show "\<not> isnan x" using i(3) by simp
  qed
qed

text \<open>
  C8, amended. Whenever the frame can be created, the feature table is built without raising;
  its rows are the rows of the frame that are not all missing once \<open>-100\<close> counts as missing,
  less the entries of the dropped columns; and no entry of its last row other than the last
  one, the gap pixel's own, is missing.
\<close>

theorem feature_table_cleaning:
  assumes "create_dataframe self coords = Inr df"
  shows "\<exists>T dropped. build_table self coords = Inr T
           \<and> (\<forall>r\<in>set (cells (dropna_all (replace_df (Fin (- 100)) NaN df))). \<not> list_all isnan r)
           \<and> cells T = map (without_columns dropped (columns df))
                          (cells (dropna_all (replace_df (Fin (- 100)) NaN df)))
           \<and> (\<forall>x\<in>set (last_row_of T). \<not> isnan x)"
proof -
  define D where "D = dropna_all (replace_df (Fin (- 100)) NaN df)"
  define L where "L = IntLabel ` {i. i < length (last_row_of D) \<and> isnan (last_row_of D ! i)}"
  have shape: "columns df = map IntLabel [0..<length coords]" "well_formed df"
    using assms by (rule create_dataframe_shape)+
  have wfD: "well_formed D" and colsD: "columns D = columns df"
    unfolding D_def using shape(2) by (rule cleaned_shape)+
  have colsD': "columns D = map IntLabel [0..<length coords]" using colsD shape(1) by simp
  from preprocess_dataframe_result[OF colsD' wfD] obtain T where
    T: "preprocess_dataframe D = Inr T" "columns T = filter (\<lambda>c. c \<notin> L) (columns D)"
       "cells T = map (without_columns L (columns D)) (cells D)"
    unfolding L_def by blast
  have "build_table self coords = Inr T"
    using assms T(1) shape(1) by (simp add: build_table_def bind_err_def set_axis_def D_def)
  moreover have "\<forall>r\<in>set (cells D). \<not> list_all isnan r"
    by (simp add: D_def dropna_all_def)
  moreover have "\<forall>x\<in>set (last_row_of T). \<not> isnan x"
    using colsD' wfD T(2,3) L_def by (rule last_row_clean)
  ultimately show ?thesis using T(3) colsD unfolding D_def by auto
qed

theorem feature_table_cleaning_witness:
  "create_dataframe cloud_filler [(0, 0), (0, 1), (0, 2)] = Inr cloud_frame
   \<and> build_table cloud_filler [(0, 0), (0, 1), (0, 2)] = Inr cloud_table
   \<and> last_row_of cloud_table = [Fin 1]
   \<and> list_all (\<lambda>x. \<not> isnan x) (last_row_of cloud_table)"
proof -
  have h: "create_dataframe cloud_filler [(0, 0), (0, 1), (0, 2)] = Inr cloud_frame"
    by code_simp
  have b: "build_table cloud_filler [(0, 0), (0, 1), (0, 2)] = Inr cloud_table"
    by code_simp
  have l: "last_row_of cloud_table = [Fin 1]"
    by code_simp
  from feature_table_cleaning[OF h] obtain T where
    "build_table cloud_filler [(0, 0), (0, 1), (0, 2)] = Inr T" "\<forall>x\<in>set (last_row_of T). \<not> isnan x"
    by blast
  with b have "list_all (\<lambda>x. \<not> isnan x) (last_row_of cloud_table)"
    by (simp add: list_all_iff)
  with h b l show ?thesis
    by simp
qed

end
